theory Spec2Isabelle
  imports Complex_Main "HOL-Library.Multiset" "HOL-Library.Log_Nat"
begin

section \<open>Values of the help-desk back end\<close>

text \<open>
  The back end is an Express application over a Mongoose model \<^verbatim>\<open>Ticket\<close>
  (\<^verbatim>\<open>models/Ticket.js\<close>) with the handlers of the ticket controller
  (\<^verbatim>\<open>createTicket\<close>, \<^verbatim>\<open>getTickets\<close>, \<^verbatim>\<open>getTicket\<close>,
  \<^verbatim>\<open>updateTicket\<close>, \<^verbatim>\<open>addComment\<close>, \<^verbatim>\<open>getDashboardStats\<close>).

  \<^item> An ObjectId is an opaque identifier; the handlers only compare the strings
    \<^verbatim>\<open>toString()\<close> gives, which are equal exactly when the ids are, and never
    empty (so \<^verbatim>\<open>!assignedToId\<close> holds exactly when the reference is absent).
  \<^item> A \<^verbatim>\<open>Date\<close> is its time value, an integer number of milliseconds since the
    epoch; \<^verbatim>\<open>a - b\<close> on two dates is the difference of the time values.
  \<^item> A JavaScript number is a double. Counts, differences of dates and minutes are
    integers below \<open>2^53\<close>, which doubles hold exactly, and they are modelled as exact
    rationals; so is the mean of the resolution times, whose rounding agrees with the
    doubles' for such minutes. The SLA compliance rate is a quotient multiplied by 100, where
    the rounding of the doubles shows, and it is computed with that rounding (\<open>fl\<close>).
  \<^item> \<^verbatim>\<open>role\<close>, \<^verbatim>\<open>status\<close>, \<^verbatim>\<open>priority\<close> and
    \<^verbatim>\<open>category\<close> are strings, compared with \<^verbatim>\<open>===\<close> against literals.
\<close>

datatype objid = ObjectId nat

type_synonym date = int

text \<open>\<^verbatim>\<open>Math.round\<close>: the nearest integer, a tie going up.\<close>

definition Math_round :: "rat \<Rightarrow> int" where
  "Math_round x = \<lfloor>x + 1 / 2\<rfloor>"

text \<open>
  The double nearest to a rational, a tie going to the even significand: what
  \<^verbatim>\<open>/\<close> and \<^verbatim>\<open>*\<close> return for the exact quotient and product. A double has
  a significand of 53 bits; overflow and subnormal numbers are left out (the values
  rounded here lie between 0 and 100).
\<close>

definition pow2 :: "int \<Rightarrow> rat" where
  "pow2 e = (if e \<ge> 0 then 2 ^ nat e else 1 / 2 ^ nat (- e))"

definition round_half_even :: "rat \<Rightarrow> int" where
  "round_half_even x =
     (let f = \<lfloor>x\<rfloor>; r = x - of_int f
      in if r < 1 / 2 then f
         else if r > 1 / 2 then f + 1
         else if even f then f else f + 1)"

text \<open>The exponent \<open>e\<close> with \<open>2^e \<le> x < 2^(e + 1)\<close>, for \<open>x > 0\<close>.\<close>

definition binade :: "rat \<Rightarrow> int" where
  "binade x =
     (let (p, q) = quotient_of x;
          k = bitlen p - bitlen q
      in if pow2 k \<le> x then k else k - 1)"

definition fl :: "rat \<Rightarrow> rat" where
  "fl x =
     (if x = 0 then 0
      else
        let e = binade \<bar>x\<bar> - 52;
            n = round_half_even (\<bar>x\<bar> / pow2 e)
        in sgn x * of_int n * pow2 e)"

subsection \<open>Local time\<close>

text \<open>
  \<^verbatim>\<open>setHours\<close>, \<^verbatim>\<open>getHours\<close>, \<^verbatim>\<open>setDate\<close> and \<^verbatim>\<open>getDate\<close> work on
  the local time of the server. ECMAScript defines them from the offset of the local time
  zone, \<^verbatim>\<open>LocalTZA(t, isUTC)\<close>, which the model takes as a parameter \<open>tza\<close>.
\<close>

type_synonym tza = "int \<Rightarrow> bool \<Rightarrow> int"

definition msPerDay :: int where "msPerDay = 86400000"
definition msPerHour :: int where "msPerHour = 3600000"
definition msPerMinute :: int where "msPerMinute = 60000"
definition msPerSecond :: int where "msPerSecond = 1000"

definition LocalTime :: "tza \<Rightarrow> int \<Rightarrow> int" where
  "LocalTime z t = t + z t True"

definition UTC :: "tza \<Rightarrow> int \<Rightarrow> int" where
  "UTC z t = t - z t False"

definition Day :: "int \<Rightarrow> int" where "Day t = t div msPerDay"
definition TimeWithinDay :: "int \<Rightarrow> int" where "TimeWithinDay t = t mod msPerDay"
definition HourFromTime :: "int \<Rightarrow> int" where "HourFromTime t = (t div msPerHour) mod 24"
definition MinFromTime :: "int \<Rightarrow> int" where "MinFromTime t = (t div msPerMinute) mod 60"
definition SecFromTime :: "int \<Rightarrow> int" where "SecFromTime t = (t div msPerSecond) mod 60"
definition msFromTime :: "int \<Rightarrow> int" where "msFromTime t = t mod msPerSecond"

definition MakeTime :: "int \<Rightarrow> int \<Rightarrow> int \<Rightarrow> int \<Rightarrow> int" where
  "MakeTime h m s milli = h * msPerHour + m * msPerMinute + s * msPerSecond + milli"

definition MakeDate :: "int \<Rightarrow> int \<Rightarrow> int" where
  "MakeDate day time = day * msPerDay + time"

definition getHours :: "tza \<Rightarrow> date \<Rightarrow> int" where
  "getHours z t = HourFromTime (LocalTime z t)"

definition setHours :: "tza \<Rightarrow> date \<Rightarrow> int \<Rightarrow> date" where
  "setHours z t h =
     (let t' = LocalTime z t;
          d = MakeDate (Day t') (MakeTime h (MinFromTime t') (SecFromTime t') (msFromTime t'))
      in UTC z d)"

text \<open>
  \<^verbatim>\<open>d.setDate(d.getDate() - 7)\<close>. ECMAScript computes
  \<^verbatim>\<open>MakeDay(YearFromTime(t'), MonthFromTime(t'), DateFromTime(t') - 7)\<close>, the day
  number of the first of the month plus the date minus one, which is \<open>Day t' - 7\<close>; the
  calendar functions are not spelled out.
\<close>

definition setDate_getDate_minus7 :: "tza \<Rightarrow> date \<Rightarrow> date" where
  "setDate_getDate_minus7 z t =
     (let t' = LocalTime z t
      in UTC z (MakeDate (Day t' - 7) (TimeWithinDay t')))"

section \<open>The Ticket model (models/Ticket.js)\<close>

record comment =
  user :: objid
  comment_text :: string
  isInternal :: bool
  comment_createdAt :: date
  comment_updatedAt :: date

record ticket =
  ticket_id :: objid
  title :: string
  description :: string
  status :: string
  priority :: string
  category :: string
  createdBy :: objid
  assignedTo :: "objid option"
  slaDeadline :: date
  comments :: "comment list"
  resolutionTime :: "rat option"
  resolvedAt :: "date option"
  createdAt :: date
  updatedAt :: date

definition status_enum :: "string list" where
  "status_enum = [''open'', ''pending'', ''resolved'', ''closed'']"

definition priority_enum :: "string list" where
  "priority_enum = [''low'', ''medium'', ''high'', ''urgent'']"

definition category_enum :: "string list" where
  "category_enum = [''technical'', ''billing'', ''general'', ''feature-request'', ''bug'']"

text \<open>The virtual \<^verbatim>\<open>slaStatus\<close>; \<open>now\<close> is the \<^verbatim>\<open>new Date()\<close> of the getter.\<close>

definition slaStatus :: "date \<Rightarrow> ticket \<Rightarrow> string" where
  "slaStatus now t =
     (if status t = ''resolved'' \<or> status t = ''closed'' then ''completed''
      else
        let timeRemaining = slaDeadline t - now in
        if timeRemaining < 0 then ''breached''
        else if timeRemaining < 2 * 60 * 60 * 1000 then ''warning''
        else ''normal'')"

subsection \<open>Setters and validators of the schema\<close>

text \<open>
  \<^verbatim>\<open>trim: true\<close> and \<^verbatim>\<open>text.trim()\<close> strip white space at both ends. A
  \<open>char\<close> is one code unit below 256; of these, ECMAScript's white space and line
  terminators are tab, line feed, vertical tab, form feed, carriage return, space and
  the no-break space.
\<close>

definition isWhiteSpace :: "char \<Rightarrow> bool" where
  "isWhiteSpace c = (of_char c \<in> {9, 10, 11, 12, 13, 32, 160 :: nat})"

definition trim :: "string \<Rightarrow> string" where
  "trim s = rev (dropWhile isWhiteSpace (rev (dropWhile isWhiteSpace s)))"

text \<open>
  What the schema checks on a path that is being written: \<^verbatim>\<open>required\<close> on a string
  rejects the empty string (after the \<^verbatim>\<open>trim\<close> setter has run), \<^verbatim>\<open>maxlength\<close>
  bounds the length, \<^verbatim>\<open>enum\<close> admits the listed values only.
\<close>

definition valid_title :: "string \<Rightarrow> bool" where
  "valid_title s = (s \<noteq> [] \<and> length s \<le> 100)"

definition valid_description :: "string \<Rightarrow> bool" where
  "valid_description s = (s \<noteq> [])"

definition valid_status :: "string \<Rightarrow> bool" where
  "valid_status s = (s \<in> set status_enum)"

definition valid_priority :: "string \<Rightarrow> bool" where
  "valid_priority s = (s \<in> set priority_enum)"

definition valid_category :: "string \<Rightarrow> bool" where
  "valid_category s = (s \<in> set category_enum)"

section \<open>Requests and responses\<close>

text \<open>
  \<^verbatim>\<open>req.user\<close>, as the \<^verbatim>\<open>protect\<close> middleware leaves it: the handlers read
  \<^verbatim>\<open>req.user.id\<close> and \<^verbatim>\<open>req.user.role\<close>. The field \<^verbatim>\<open>id\<close> is
  \<open>uid\<close> here.
\<close>

record req_user =
  uid :: objid
  role :: string

text \<open>
  \<^verbatim>\<open>req.body\<close>: a JSON object, every key optional. The keys are the ones the
  handlers read and the paths of the schema that the store writes when it is handed the
  whole body. An absent key is \<open>None\<close>. For the paths that may hold \<^verbatim>\<open>null\<close>
  in a stored ticket the body may carry \<^verbatim>\<open>null\<close> too: \<open>Some None\<close>.
  String-valued keys hold strings. The keys \<^verbatim>\<open>comments\<close>, \<^verbatim>\<open>_id\<close>,
  \<^verbatim>\<open>createdAt\<close> and \<^verbatim>\<open>updatedAt\<close> of a body are left out; a key that is
  no path of the schema is dropped by the store.
\<close>

record body =
  body_title :: "string option"
  body_description :: "string option"
  body_category :: "string option"
  body_priority :: "string option"
  body_status :: "string option"
  body_createdBy :: "objid option"
  body_assignedTo :: "objid option option"
  body_slaDeadline :: "date option"
  body_resolutionTime :: "rat option option"
  body_resolvedAt :: "date option option"
  body_text :: "string option"
  body_isInternal :: "bool option"

text \<open>
  A handler answers with a status code and a JSON value. \<open>Inr\<close> is the 200 (or 201)
  answer with its payload; the others are the error answers:
  \<^verbatim>\<open>res.status(400)\<close>, \<^verbatim>\<open>res.status(403)\<close>, \<^verbatim>\<open>res.status(404)\<close>.
\<close>

datatype error = BadRequest | AccessDenied | NotFound

text \<open>JavaScript's \<^verbatim>\<open>!s\<close> on an optional string: absent, or the empty string.\<close>

definition falsy :: "string option \<Rightarrow> bool" where
  "falsy s = (case s of None \<Rightarrow> True | Some v \<Rightarrow> v = [])"

section \<open>The ticket collection\<close>

text \<open>
  The collection is the list of its documents, in insertion order. The model has one
  request at a time, and the store answers every read; what makes a store call throw
  here is a validation failure (\<open>ValidationError\<close>), which the handlers' \<^verbatim>\<open>catch\<close>
  turns into a 400 answer.
\<close>

type_synonym db = "ticket list"

datatype store_error = ValidationError

subsection \<open>Queries\<close>

text \<open>
  A query object is a conjunction of conditions on paths; \<^verbatim>\<open>{ ...q, k: v }\<close> adds
  one. Only the conditions the controller builds are modelled.
\<close>

datatype cond =
    createdBy_is objid
  | assignedTo_is objid
  | status_is string
  | status_in "string list"
  | resolutionTime_ne_null_gt_0
  | resolvedAt_exists_ne_null
  | createdAt_gte date

fun holds :: "cond \<Rightarrow> ticket \<Rightarrow> bool" where
  "holds (createdBy_is u) t = (createdBy t = u)"
| "holds (assignedTo_is u) t = (assignedTo t = Some u)"
| "holds (status_is s) t = (status t = s)"
| "holds (status_in ss) t = (status t \<in> set ss)"
| "holds resolutionTime_ne_null_gt_0 t =
     (case resolutionTime t of None \<Rightarrow> False | Some r \<Rightarrow> r > 0)"
| "holds resolvedAt_exists_ne_null t = (resolvedAt t \<noteq> None)"
| "holds (createdAt_gte d) t = (createdAt t \<ge> d)"

type_synonym query = "cond list"

definition matches :: "query \<Rightarrow> ticket \<Rightarrow> bool" where
  "matches q t = list_all (\<lambda>c. holds c t) q"

definition Ticket_find :: "query \<Rightarrow> db \<Rightarrow> ticket list" where
  "Ticket_find q d = filter (matches q) d"

definition Ticket_countDocuments :: "query \<Rightarrow> db \<Rightarrow> nat" where
  "Ticket_countDocuments q d = length (filter (matches q) d)"

text \<open>
  \<^verbatim>\<open>find\<close>, \<^verbatim>\<open>countDocuments\<close> and \<^verbatim>\<open>findById\<close> cast a query to the
  schema before they send it: the string \<^verbatim>\<open>req.user.id\<close> under
  \<^verbatim>\<open>createdBy\<close> or \<^verbatim>\<open>assignedTo\<close> becomes the ObjectId it spells, which
  is what \<open>holds\<close> compares. \<^verbatim>\<open>aggregate\<close> sends its pipeline as it is: in a
  \<^verbatim>\<open>$match\<close> stage the string is compared with the stored ObjectId, and a string
  equals no ObjectId.
\<close>

fun holds_uncast :: "cond \<Rightarrow> ticket \<Rightarrow> bool" where
  "holds_uncast (createdBy_is u) t = False"
| "holds_uncast (assignedTo_is u) t = False"
| "holds_uncast (status_is s) t = (status t = s)"
| "holds_uncast (status_in ss) t = (status t \<in> set ss)"
| "holds_uncast resolutionTime_ne_null_gt_0 t =
     (case resolutionTime t of None \<Rightarrow> False | Some r \<Rightarrow> r > 0)"
| "holds_uncast resolvedAt_exists_ne_null t = (resolvedAt t \<noteq> None)"
| "holds_uncast (createdAt_gte d) t = (createdAt t \<ge> d)"

definition matches_uncast :: "query \<Rightarrow> ticket \<Rightarrow> bool" where
  "matches_uncast q t = list_all (\<lambda>c. holds_uncast c t) q"

text \<open>\<^verbatim>\<open>.sort({ createdAt: -1 })\<close>: newest first.\<close>

definition sort_createdAt_desc :: "ticket list \<Rightarrow> ticket list" where
  "sort_createdAt_desc ts = sort_key (\<lambda>t. - createdAt t) ts"

text \<open>
  \<^verbatim>\<open>aggregate([{ $match: q }, { $group: { _id: '$path', count: { $sum: 1 } } }])\<close>:
  one \<open>(value, count)\<close> pair per value present among the matching tickets.
\<close>

definition Ticket_aggregate_count :: "query \<Rightarrow> (ticket \<Rightarrow> string) \<Rightarrow> db \<Rightarrow> (string \<times> nat) list" where
  "Ticket_aggregate_count q path d =
     (let ts = filter (matches_uncast q) d
      in map (\<lambda>v. (v, length (filter (\<lambda>t. path t = v) ts))) (remdups (map path ts)))"

definition Ticket_findById :: "db \<Rightarrow> objid \<Rightarrow> ticket option" where
  "Ticket_findById d i = find (\<lambda>t. ticket_id t = i) d"

subsection \<open>Writes\<close>

text \<open>A new \<^verbatim>\<open>_id\<close> is one no document of the collection has.\<close>

definition objid_nat :: "objid \<Rightarrow> nat" where
  "objid_nat i = (case i of ObjectId n \<Rightarrow> n)"

definition new_ObjectId :: "db \<Rightarrow> objid" where
  "new_ObjectId d = ObjectId (Suc (fold max (map (\<lambda>t. objid_nat (ticket_id t)) d) 0))"

text \<open>
  \<^verbatim>\<open>Ticket.create({ title, description, category, priority, createdBy, slaDeadline })\<close>.
  The setters trim title and description; the paths the object does not give take their
  defaults (\<^verbatim>\<open>status: 'open'\<close>, \<^verbatim>\<open>resolutionTime: null\<close>, no comments) or
  stay unset (\<^verbatim>\<open>assignedTo\<close>, \<^verbatim>\<open>resolvedAt\<close>); every path is validated;
  \<^verbatim>\<open>timestamps: true\<close> makes the store stamp \<^verbatim>\<open>createdAt\<close> and
  \<^verbatim>\<open>updatedAt\<close> with its own reading \<open>stamp\<close> of the clock when it saves.
\<close>

definition Ticket_create ::
  "date \<Rightarrow> string \<Rightarrow> string \<Rightarrow> string \<Rightarrow> string \<Rightarrow> objid \<Rightarrow> date \<Rightarrow> db
     \<Rightarrow> store_error + ticket \<times> db" where
  "Ticket_create stamp ttl descr cat prio creator deadline d =
     (let doc = \<lparr> ticket_id = new_ObjectId d,
                  title = trim ttl,
                  description = trim descr,
                  status = ''open'',
                  priority = prio,
                  category = cat,
                  createdBy = creator,
                  assignedTo = None,
                  slaDeadline = deadline,
                  comments = [],
                  resolutionTime = None,
                  resolvedAt = None,
                  createdAt = stamp,
                  updatedAt = stamp \<rparr>
      in if valid_title (title doc) \<and> valid_description (description doc)
            \<and> valid_status (status doc) \<and> valid_priority (priority doc)
            \<and> valid_category (category doc)
         then Inr (doc, d @ [doc])
         else Inl ValidationError)"

text \<open>
  \<^verbatim>\<open>Ticket.findByIdAndUpdate(id, body, { new: true, runValidators: true })\<close>. The
  body has no update operator, so the store reads it as \<^verbatim>\<open>$set\<close> of every schema
  path it carries; the validators of those paths run first, and a failure throws before
  anything is written. The first document with the id is the one updated, and it is
  returned as updated (\<^verbatim>\<open>new: true\<close>); \<^verbatim>\<open>null\<close> is returned when there is
  none.
\<close>

definition opt_ok :: "('a \<Rightarrow> bool) \<Rightarrow> 'a option \<Rightarrow> bool" where
  "opt_ok P v = (case v of None \<Rightarrow> True | Some x \<Rightarrow> P x)"

definition update_valid :: "body \<Rightarrow> bool" where
  "update_valid b =
     (opt_ok (\<lambda>s. valid_title (trim s)) (body_title b)
      \<and> opt_ok (\<lambda>s. valid_description (trim s)) (body_description b)
      \<and> opt_ok valid_status (body_status b)
      \<and> opt_ok valid_priority (body_priority b)
      \<and> opt_ok valid_category (body_category b))"

definition set_path :: "'a option \<Rightarrow> 'a \<Rightarrow> 'a" where
  "set_path v old = (case v of None \<Rightarrow> old | Some x \<Rightarrow> x)"

definition apply_set :: "date \<Rightarrow> body \<Rightarrow> ticket \<Rightarrow> ticket" where
  "apply_set stamp b t =
     t \<lparr> title := set_path (map_option trim (body_title b)) (title t),
         description := set_path (map_option trim (body_description b)) (description t),
         status := set_path (body_status b) (status t),
         priority := set_path (body_priority b) (priority t),
         category := set_path (body_category b) (category t),
         createdBy := set_path (body_createdBy b) (createdBy t),
         assignedTo := set_path (body_assignedTo b) (assignedTo t),
         slaDeadline := set_path (body_slaDeadline b) (slaDeadline t),
         resolutionTime := set_path (body_resolutionTime b) (resolutionTime t),
         resolvedAt := set_path (body_resolvedAt b) (resolvedAt t),
         updatedAt := stamp \<rparr>"

fun updateOne :: "objid \<Rightarrow> (ticket \<Rightarrow> ticket) \<Rightarrow> db \<Rightarrow> db" where
  "updateOne i f [] = []"
| "updateOne i f (t # ts) = (if ticket_id t = i then f t # ts else t # updateOne i f ts)"

definition Ticket_findByIdAndUpdate ::
  "date \<Rightarrow> objid \<Rightarrow> body \<Rightarrow> db \<Rightarrow> store_error + ticket option \<times> db" where
  "Ticket_findByIdAndUpdate stamp i b d =
     (if \<not> update_valid b then Inl ValidationError
      else case Ticket_findById d i of
             None \<Rightarrow> Inr (None, d)
           | Some t \<Rightarrow> Inr (Some (apply_set stamp b t), updateOne i (apply_set stamp b) d))"

text \<open>
  \<^verbatim>\<open>ticket.comments.push(comment); await ticket.save()\<close>: the comment is appended
  to the stored document, whose \<^verbatim>\<open>updatedAt\<close> the store stamps; the sub-document
  gets its own timestamps. Saving validates every path of the loaded document, those of
  its comments included (\<^verbatim>\<open>text\<close> is required).
\<close>

definition save_valid :: "ticket \<Rightarrow> bool" where
  "save_valid t = (valid_title (title t) \<and> valid_description (description t)
                   \<and> valid_status (status t) \<and> valid_priority (priority t)
                   \<and> valid_category (category t)
                   \<and> list_all (\<lambda>c. comment_text c \<noteq> []) (comments t))"

definition push_comment :: "date \<Rightarrow> comment \<Rightarrow> ticket \<Rightarrow> ticket" where
  "push_comment stamp c t = t \<lparr> comments := comments t @ [c], updatedAt := stamp \<rparr>"

definition Ticket_save_comment :: "date \<Rightarrow> ticket \<Rightarrow> comment \<Rightarrow> db \<Rightarrow> store_error + db" where
  "Ticket_save_comment stamp t c d =
     (if save_valid t \<and> comment_text c \<noteq> []
      then Inr (updateOne (ticket_id t) (push_comment stamp c) d)
      else Inl ValidationError)"

section \<open>The ticket controller\<close>

text \<open>
  Each handler takes the readings of the clock it makes (\<^verbatim>\<open>new Date()\<close>, in the
  order of the source), the reading \<open>stamp\<close> the store makes for its timestamps,
  \<^verbatim>\<open>req.user\<close>, \<^verbatim>\<open>req.params.id\<close>, \<^verbatim>\<open>req.body\<close> and the collection,
  and returns the answer with the collection as it leaves it. \<^verbatim>\<open>populate\<close> replaces
  a reference by the user document it names (every reference is taken to name one); the
  handlers read the same id back from either shape, and the model keeps the reference.
\<close>

subsection \<open>createTicket\<close>

definition createTicket ::
  "tza \<Rightarrow> date \<Rightarrow> date \<Rightarrow> req_user \<Rightarrow> body \<Rightarrow> db \<Rightarrow> (error + ticket option) \<times> db" where
  "createTicket z now stamp u b d =
     (if falsy (body_title b) \<or> falsy (body_description b)
         \<or> falsy (body_category b) \<or> falsy (body_priority b)
      then (Inl BadRequest, d)
      else
        case (body_title b, body_description b, body_category b, body_priority b) of
          (Some ttl, Some descr, Some cat, Some prio) \<Rightarrow>
            (let deadline = setHours z now (getHours z now + 24)
             in case Ticket_create stamp ttl descr cat prio (uid u) deadline d of
                  Inl e \<Rightarrow> (Inl BadRequest, d)
                | Inr (t, d') \<Rightarrow> (Inr (Ticket_findById d' (ticket_id t)), d'))
        | _ \<Rightarrow> (Inl BadRequest, d))"

subsection \<open>getTickets\<close>

definition getTickets :: "req_user \<Rightarrow> db \<Rightarrow> ticket list" where
  "getTickets u d =
     (let query = [];
          query = (if role u = ''user'' then query @ [createdBy_is (uid u)] else query);
          query = (if role u = ''agent'' then query @ [assignedTo_is (uid u)] else query)
      in sort_createdAt_desc (Ticket_find query d))"

subsection \<open>The permission check of getTicket, updateTicket and addComment\<close>

text \<open>
  The three handlers carry the same two blocks: a \<^verbatim>\<open>user\<close> is refused a ticket
  another principal created, an \<^verbatim>\<open>agent\<close> a ticket that is not assigned to them
  (\<^verbatim>\<open>!assignedToId || assignedToId !== req.user.id\<close>).
\<close>

definition denied :: "req_user \<Rightarrow> ticket \<Rightarrow> bool" where
  "denied u t =
     ((role u = ''user'' \<and> createdBy t \<noteq> uid u)
      \<or> (role u = ''agent'' \<and> (assignedTo t = None \<or> assignedTo t \<noteq> Some (uid u))))"

subsection \<open>getTicket\<close>

definition getTicket :: "req_user \<Rightarrow> objid \<Rightarrow> db \<Rightarrow> error + ticket" where
  "getTicket u i d =
     (case Ticket_findById d i of
        None \<Rightarrow> Inl NotFound
      | Some t \<Rightarrow>
          if role u = ''user'' \<and> createdBy t \<noteq> uid u then Inl AccessDenied
          else if role u = ''agent'' \<and> (assignedTo t = None \<or> assignedTo t \<noteq> Some (uid u))
          then Inl AccessDenied
          else Inr t)"

subsection \<open>updateTicket\<close>

text \<open>
  \<open>now1\<close> is the \<^verbatim>\<open>new Date()\<close> stored as \<^verbatim>\<open>resolvedAt\<close>, \<open>now2\<close> the
  \<^verbatim>\<open>new Date()\<close> the resolution time is computed from. The two blocks test the
  same condition, \<open>being_resolved\<close>; the second tests it on the body the first has
  written \<^verbatim>\<open>resolvedAt\<close> into. Were the store to return \<^verbatim>\<open>null\<close>, reading
  \<^verbatim>\<open>ticket._id\<close> for the log line would throw, which the \<^verbatim>\<open>catch\<close> answers
  with 400.
\<close>

definition being_resolved :: "body \<Rightarrow> ticket \<Rightarrow> bool" where
  "being_resolved b t = (body_status b = Some ''resolved'' \<and> status t \<noteq> ''resolved'')"

definition updateTicket ::
  "date \<Rightarrow> date \<Rightarrow> date \<Rightarrow> req_user \<Rightarrow> objid \<Rightarrow> body \<Rightarrow> db \<Rightarrow> (error + ticket) \<times> db" where
  "updateTicket now1 now2 stamp u i b d =
     (case Ticket_findById d i of
        None \<Rightarrow> (Inl NotFound, d)
      | Some t \<Rightarrow>
          if role u = ''user'' \<and> createdBy t \<noteq> uid u then (Inl AccessDenied, d)
          else if role u = ''agent'' \<and> (assignedTo t = None \<or> assignedTo t \<noteq> Some (uid u))
          then (Inl AccessDenied, d)
          else
            let b = (if being_resolved b t
                     then b \<lparr> body_resolvedAt := Some (Some now1) \<rparr> else b);
                b = (if being_resolved b t
                     then b \<lparr> body_resolutionTime :=
                            Some (Some (of_int (Math_round
                              (of_int (now2 - createdAt t) / (1000 * 60))))) \<rparr>
                     else b)
            in case Ticket_findByIdAndUpdate stamp i b d of
                 Inl e \<Rightarrow> (Inl BadRequest, d)
               | Inr (None, d') \<Rightarrow> (Inl BadRequest, d')
               | Inr (Some t', d') \<Rightarrow> (Inr t', d'))"

subsection \<open>addComment\<close>

definition addComment ::
  "date \<Rightarrow> req_user \<Rightarrow> objid \<Rightarrow> body \<Rightarrow> db \<Rightarrow> (error + ticket option) \<times> db" where
  "addComment stamp u i b d =
     (case body_text b of
        None \<Rightarrow> (Inl BadRequest, d)
      | Some txt \<Rightarrow>
          if txt = [] \<or> trim txt = [] then (Inl BadRequest, d)
          else
            case Ticket_findById d i of
              None \<Rightarrow> (Inl NotFound, d)
            | Some t \<Rightarrow>
                if role u = ''user'' \<and> createdBy t \<noteq> uid u then (Inl AccessDenied, d)
                else if role u = ''agent''
                        \<and> (assignedTo t = None \<or> assignedTo t \<noteq> Some (uid u))
                then (Inl AccessDenied, d)
                else
                  let c = \<lparr> user = uid u,
                            comment_text = trim txt,
                            isInternal = (case body_isInternal b of None \<Rightarrow> False | Some v \<Rightarrow> v),
                            comment_createdAt = stamp,
                            comment_updatedAt = stamp \<rparr>
                  in case Ticket_save_comment stamp t c d of
                       Inl e \<Rightarrow> (Inl BadRequest, d)
                     | Inr d' \<Rightarrow> (Inr (Ticket_findById d' i), d'))"

subsection \<open>getDashboardStats\<close>

record sla_counts =
  normal :: nat
  warning :: nat
  breached :: nat

record stats_report =
  totalTickets :: nat
  openTickets :: nat
  pendingTickets :: nat
  resolvedTickets :: nat
  closedTickets :: nat
  avgResolutionTime :: int
  slaComplianceRate :: int
  slaCompliantTickets :: nat
  priorityStats :: "(string \<times> nat) list"
  categoryStats :: "(string \<times> nat) list"
  statusStats :: "(string \<times> nat) list"
  recentTickets :: nat
  slaStatus_counts :: sla_counts

text \<open>\<^verbatim>\<open>acc + ticket.resolutionTime\<close>: \<^verbatim>\<open>null\<close> counts as 0 in a sum.\<close>

definition num :: "rat option \<Rightarrow> rat" where
  "num v = (case v of None \<Rightarrow> 0 | Some r \<Rightarrow> r)"

text \<open>
  The two \<^verbatim>\<open>forEach\<close> loops, with the counters they update as the state. A date
  that is present is truthy, and \<^verbatim>\<open>slaDeadline\<close> is a required path, so of the
  guards \<^verbatim>\<open>ticket.resolvedAt && ticket.slaDeadline\<close> and
  \<^verbatim>\<open>!ticket.slaDeadline\<close> only the test of \<^verbatim>\<open>resolvedAt\<close> can fail.
\<close>

fun sla_compliance_loop :: "ticket list \<Rightarrow> nat \<times> nat \<Rightarrow> nat \<times> nat" where
  "sla_compliance_loop [] (slaCompliant, totalResolvedWithSLA) =
     (slaCompliant, totalResolvedWithSLA)"
| "sla_compliance_loop (t # ts) (slaCompliant, totalResolvedWithSLA) =
     (case resolvedAt t of
        Some r \<Rightarrow>
          sla_compliance_loop ts
            (if r \<le> slaDeadline t then slaCompliant + 1 else slaCompliant,
             totalResolvedWithSLA + 1)
      | None \<Rightarrow> sla_compliance_loop ts (slaCompliant, totalResolvedWithSLA))"

fun sla_status_loop :: "date \<Rightarrow> ticket list \<Rightarrow> sla_counts \<Rightarrow> sla_counts" where
  "sla_status_loop now [] c = c"
| "sla_status_loop now (t # ts) c =
     (if status t = ''resolved'' \<or> status t = ''closed'' then sla_status_loop now ts c
      else
        let timeRemaining = slaDeadline t - now in
        if timeRemaining < 0 then sla_status_loop now ts (c \<lparr> breached := breached c + 1 \<rparr>)
        else if timeRemaining < 2 * 60 * 60 * 1000
        then sla_status_loop now ts (c \<lparr> warning := warning c + 1 \<rparr>)
        else sla_status_loop now ts (c \<lparr> normal := normal c + 1 \<rparr>))"

text \<open>
  \<open>nowWeek\<close> is the \<^verbatim>\<open>new Date()\<close> the week is counted back from, \<open>nowSla\<close> the
  one the SLA breakdown compares the deadlines with. Every sub-query reads the same
  collection.
\<close>

definition getDashboardStats :: "tza \<Rightarrow> date \<Rightarrow> date \<Rightarrow> req_user \<Rightarrow> db \<Rightarrow> stats_report" where
  "getDashboardStats z nowWeek nowSla u d =
     (let statsQuery = (if role u = ''agent'' then [assignedTo_is (uid u)] else []);
          resolvedTicketsWithTime =
            Ticket_find (statsQuery @ [status_is ''resolved'', resolutionTime_ne_null_gt_0]) d;
          avg = (if length resolvedTicketsWithTime > 0
                 then fold (\<lambda>t acc. acc + num (resolutionTime t)) resolvedTicketsWithTime 0
                        / of_nat (length resolvedTicketsWithTime)
                 else 0);
          oneWeekAgo = setDate_getDate_minus7 z nowWeek;
          resolvedAndClosedTickets =
            Ticket_find (statsQuery @ [status_in [''resolved'', ''closed''],
                                      resolvedAt_exists_ne_null]) d;
          (slaCompliant, totalResolvedWithSLA) =
            sla_compliance_loop resolvedAndClosedTickets (0, 0);
          rate = (if totalResolvedWithSLA > 0
                  then Math_round (fl (fl (of_nat slaCompliant / of_nat totalResolvedWithSLA)
                                         * 100))
                  else 0);
          allTickets = Ticket_find statsQuery d
      in \<lparr> totalTickets = Ticket_countDocuments statsQuery d,
           openTickets = Ticket_countDocuments (statsQuery @ [status_is ''open'']) d,
           pendingTickets = Ticket_countDocuments (statsQuery @ [status_is ''pending'']) d,
           resolvedTickets = Ticket_countDocuments (statsQuery @ [status_is ''resolved'']) d,
           closedTickets = Ticket_countDocuments (statsQuery @ [status_is ''closed'']) d,
           avgResolutionTime = Math_round avg,
           slaComplianceRate = rate,
           slaCompliantTickets = slaCompliant,
           priorityStats = Ticket_aggregate_count statsQuery priority d,
           categoryStats = Ticket_aggregate_count statsQuery category d,
           statusStats = Ticket_aggregate_count statsQuery status d,
           recentTickets = Ticket_countDocuments (statsQuery @ [createdAt_gte oneWeekAgo]) d,
           slaStatus_counts =
             sla_status_loop nowSla allTickets \<lparr> normal = 0, warning = 0, breached = 0 \<rparr> \<rparr>)"

subsection \<open>The route of the dashboard\<close>

text \<open>
  \<^verbatim>\<open>router.get('/dashboard/stats', protect, admin, getDashboardStats)\<close>: the handler
  runs for the principals the middleware \<^verbatim>\<open>admin\<close> lets through; the others get
  the middleware's refusal. The middleware is defined in \<^verbatim>\<open>middleware/auth\<close>, which
  is not among the sources: it is the parameter \<open>gate\<close>.
\<close>

definition dashboard_stats ::
  "(req_user \<Rightarrow> bool) \<Rightarrow> tza \<Rightarrow> date \<Rightarrow> date \<Rightarrow> req_user \<Rightarrow> db \<Rightarrow> error + stats_report" where
  "dashboard_stats gate z nowWeek nowSla u d =
     (if gate u then Inr (getDashboardStats z nowWeek nowSla u d) else Inl AccessDenied)"

section \<open>Example data\<close>

text \<open>
  A server whose local time is UTC, principals of each role, and the ticket of the
  scenarios: filed by \<open>alice\<close> at time 0 and assigned to the agent \<open>grace\<close>.
\<close>

definition utc_zone :: tza where
  "utc_zone t isUTC = 0"

text \<open>
  A server whose clocks go forward by one hour at noon of the first day: UTC before,
  one hour ahead of UTC from then on.
\<close>

definition dst_zone :: tza where
  "dst_zone t isUTC = (if t < 43200000 then 0 else 3600000)"

definition alice :: req_user where
  "alice = \<lparr> uid = ObjectId 10, role = ''user'' \<rparr>"

definition bob :: req_user where
  "bob = \<lparr> uid = ObjectId 11, role = ''user'' \<rparr>"

definition grace :: req_user where
  "grace = \<lparr> uid = ObjectId 20, role = ''agent'' \<rparr>"

definition heidi :: req_user where
  "heidi = \<lparr> uid = ObjectId 21, role = ''agent'' \<rparr>"

definition root_admin :: req_user where
  "root_admin = \<lparr> uid = ObjectId 30, role = ''admin'' \<rparr>"

definition manager :: req_user where
  "manager = \<lparr> uid = ObjectId 40, role = ''manager'' \<rparr>"

definition empty_body :: body where
  "empty_body = \<lparr> body_title = None, body_description = None, body_category = None,
                   body_priority = None, body_status = None, body_createdBy = None,
                   body_assignedTo = None, body_slaDeadline = None,
                   body_resolutionTime = None, body_resolvedAt = None,
                   body_text = None, body_isInternal = None \<rparr>"

definition draft_T :: body where
  "draft_T = empty_body \<lparr> body_title := Some ''Printer'', body_description := Some ''It jams'',
                          body_category := Some ''bug'', body_priority := Some ''high'' \<rparr>"

definition ticket_T :: ticket where
  "ticket_T = \<lparr> ticket_id = ObjectId 1, title = ''Printer'', description = ''It jams'',
                 status = ''open'', priority = ''high'', category = ''bug'',
                 createdBy = ObjectId 10, assignedTo = Some (ObjectId 20),
                 slaDeadline = 86400000, comments = [], resolutionTime = None,
                 resolvedAt = None, createdAt = 0, updatedAt = 0 \<rparr>"

text \<open>
  The collection of Scenario E: three tickets assigned to \<open>grace\<close>, one of them
  resolved in 30 minutes and two open, one ticket of the agent \<open>heidi\<close>, resolved in
  99 minutes, and one that is not assigned.
\<close>

definition ticket_R :: ticket where
  "ticket_R = ticket_T \<lparr> ticket_id := ObjectId 2, status := ''resolved'',
                          resolutionTime := Some 30, resolvedAt := Some 1800000,
                          updatedAt := 1800000 \<rparr>"

definition ticket_O :: ticket where
  "ticket_O = ticket_T \<lparr> ticket_id := ObjectId 3 \<rparr>"

definition ticket_H :: ticket where
  "ticket_H = ticket_T \<lparr> ticket_id := ObjectId 4, status := ''resolved'',
                          assignedTo := Some (ObjectId 21), resolutionTime := Some 99,
                          resolvedAt := Some 5940000, updatedAt := 5940000 \<rparr>"

definition ticket_U :: ticket where
  "ticket_U = ticket_T \<lparr> ticket_id := ObjectId 5, assignedTo := None \<rparr>"

definition desk :: db where
  "desk = [ticket_T, ticket_R, ticket_O, ticket_H, ticket_U]"

section \<open>Properties\<close>

subsection \<open>Arithmetic of dates and identifiers\<close>

lemma Math_round_minutes: "Math_round (of_int d / (1000 * 60)) = (d + 30000) div 60000"
proof -
  have "(of_int d :: rat) / (1000 * 60) + 1 / 2 = of_int (d + 30000) / of_int 60000"
    by (simp add: field_simps)
  then have "Math_round (of_int d / (1000 * 60)) = \<lfloor>(of_int (d + 30000) :: rat) / of_int 60000\<rfloor>"
    unfolding Math_round_def by (rule arg_cong)
  also have "\<dots> = (d + 30000) div 60000"
    by (rule floor_divide_of_int_eq)
  finally show ?thesis .
qed

lemma time_parts:
  "MakeTime (HourFromTime t) (MinFromTime t) (SecFromTime t) (msFromTime t) = TimeWithinDay t"
proof -
  have s: "t mod 60000 = 1000 * (t div 1000 mod 60) + t mod 1000"
    using zmod_zmult2_eq [of 60 t 1000] by simp
  have m: "t mod 3600000 = 60000 * (t div 60000 mod 60) + t mod 60000"
    using zmod_zmult2_eq [of 60 t 60000] by simp
  have h: "t mod 86400000 = 3600000 * (t div 3600000 mod 24) + t mod 3600000"
    using zmod_zmult2_eq [of 24 t 3600000] by simp
  show ?thesis
    unfolding MakeTime_def HourFromTime_def MinFromTime_def SecFromTime_def msFromTime_def
      TimeWithinDay_def msPerDay_def msPerHour_def msPerMinute_def msPerSecond_def
    by (simp only: s m h algebra_simps)
qed

lemma setHours_plus_24_local:
  "setHours z t (getHours z t + 24) = UTC z (LocalTime z t + 24 * msPerHour)"
proof -
  let ?l = "LocalTime z t"
  have "MakeTime (HourFromTime ?l + 24) (MinFromTime ?l) (SecFromTime ?l) (msFromTime ?l)
        = TimeWithinDay ?l + 24 * msPerHour"
    using time_parts [of ?l] by (simp add: MakeTime_def algebra_simps)
  moreover have "Day ?l * msPerDay + TimeWithinDay ?l = ?l"
    by (simp add: Day_def TimeWithinDay_def)
  ultimately have "MakeDate (Day ?l)
      (MakeTime (HourFromTime ?l + 24) (MinFromTime ?l) (SecFromTime ?l) (msFromTime ?l))
        = ?l + 24 * msPerHour"
    by (simp add: MakeDate_def)
  then show ?thesis
    by (simp add: setHours_def getHours_def Let_def)
qed

text \<open>
  Where the offset at \<open>t\<close> is also the offset of the local time 24 hours later, the
  24 hours of local time are 24 hours.
\<close>

lemma setHours_plus_24_same_offset:
  assumes "z t True = off" and "z (t + off + 24 * msPerHour) False = off"
  shows "setHours z t (getHours z t + 24) = t + 24 * msPerHour"
  using assms by (simp add: setHours_plus_24_local UTC_def LocalTime_def)

lemma setHours_plus_24_fixed_offset:
  assumes "\<And>x isUTC. z x isUTC = off"
  shows "setHours z t (getHours z t + 24) = t + 24 * msPerHour"
  by (simp add: setHours_plus_24_local UTC_def LocalTime_def assms)

lemma fold_max_ge: "n \<le> fold max xs (n::nat)"
  by (induction xs arbitrary: n) (auto intro: order_trans [OF max.cobounded2])

lemma fold_max_mem: "x \<in> set xs \<Longrightarrow> x \<le> fold max xs (n::nat)"
proof (induction xs arbitrary: n)
  case Nil
  then show ?case by simp
next
  case (Cons y ys)
  show ?case
  proof (cases "x = y")
    case True
    have "y \<le> max y n" by simp
    also have "\<dots> \<le> fold max ys (max y n)" by (rule fold_max_ge)
    finally show ?thesis using True by simp
  next
    case False
    with Cons show ?thesis by simp
  qed
qed

lemma new_ObjectId_fresh: "t \<in> set d \<Longrightarrow> ticket_id t \<noteq> new_ObjectId d"
proof
  assume t: "t \<in> set d" and eq: "ticket_id t = new_ObjectId d"
  have "objid_nat (ticket_id t) \<le> fold max (map (\<lambda>t. objid_nat (ticket_id t)) d) 0"
    using t by (intro fold_max_mem) auto
  moreover have "objid_nat (new_ObjectId d) = Suc (fold max (map (\<lambda>t. objid_nat (ticket_id t)) d) 0)"
    by (simp add: new_ObjectId_def objid_nat_def)
  ultimately show False using eq by simp
qed

lemma findById_append_new:
  "(\<And>t. t \<in> set d \<Longrightarrow> ticket_id t \<noteq> ticket_id doc) \<Longrightarrow>
   Ticket_findById (d @ [doc]) (ticket_id doc) = Some doc"
  unfolding Ticket_findById_def by (induction d) auto

lemma findById_Some_id: "Ticket_findById d i = Some t \<Longrightarrow> ticket_id t = i \<and> t \<in> set d"
  unfolding Ticket_findById_def by (induction d) (auto split: if_splits)

lemma findById_updateOne:
  "(\<And>t. ticket_id (f t) = ticket_id t) \<Longrightarrow>
   Ticket_findById (updateOne i f d) j = (if j = i then map_option f (Ticket_findById d i) else Ticket_findById d j)"
  unfolding Ticket_findById_def by (induction d) auto

subsection \<open>What createTicket answers\<close>

lemma createTicket_Inr:
  assumes "createTicket z now stamp u b d = (Inr r, d')"
  obtains ttl descr cat prio t where
    "body_title b = Some ttl" "body_description b = Some descr"
    "body_category b = Some cat" "body_priority b = Some prio"
    "t = \<lparr> ticket_id = new_ObjectId d, title = trim ttl, description = trim descr,
            status = ''open'', priority = prio, category = cat,
            createdBy = uid u, assignedTo = None,
            slaDeadline = setHours z now (getHours z now + 24),
            comments = [], resolutionTime = None, resolvedAt = None,
            createdAt = stamp, updatedAt = stamp \<rparr>"
    "r = Some t" "d' = d @ [t]"
proof -
  from assms obtain ttl descr cat prio where
    f: "body_title b = Some ttl" "body_description b = Some descr"
       "body_category b = Some cat" "body_priority b = Some prio"
    by (auto simp: createTicket_def falsy_def split: if_splits option.splits)
  let ?doc = "\<lparr> ticket_id = new_ObjectId d, title = trim ttl, description = trim descr,
                        status = ''open'', priority = prio, category = cat,
                        createdBy = uid u, assignedTo = None,
                        slaDeadline = setHours z now (getHours z now + 24),
                        comments = [], resolutionTime = None, resolvedAt = None,
                        createdAt = stamp, updatedAt = stamp \<rparr>"
  have fresh: "Ticket_findById (d @ [?doc]) (ticket_id ?doc) = Some ?doc"
    by (rule findById_append_new) (simp add: new_ObjectId_fresh)
  from assms f have "r = Some ?doc \<and> d' = d @ [?doc]"
    using fresh
    by (auto simp: createTicket_def Ticket_create_def Let_def split: if_splits)
  with f that show ?thesis by blast
qed

lemma createTicket_succeeds:
  assumes "body_title b = Some ttl" "body_description b = Some descr"
    "body_category b = Some cat" "body_priority b = Some prio"
    "ttl \<noteq> []" "descr \<noteq> []"
    "valid_title (trim ttl)" "valid_description (trim descr)"
    "valid_category cat" "valid_priority prio"
  shows "\<exists>t. createTicket z now stamp u b d = (Inr (Some t), d @ [t])"
proof -
  let ?doc = "\<lparr> ticket_id = new_ObjectId d, title = trim ttl, description = trim descr,
                        status = ''open'', priority = prio, category = cat,
                        createdBy = uid u, assignedTo = None,
                        slaDeadline = setHours z now (getHours z now + 24),
                        comments = [], resolutionTime = None, resolvedAt = None,
                        createdAt = stamp, updatedAt = stamp \<rparr>"
  have fresh: "Ticket_findById (d @ [?doc]) (ticket_id ?doc) = Some ?doc"
    by (rule findById_append_new) (simp add: new_ObjectId_fresh)
  have ne: "cat \<noteq> []" "prio \<noteq> []"
    using assms(9,10) by (auto simp: valid_category_def valid_priority_def category_enum_def priority_enum_def)
  have "createTicket z now stamp u b d = (Inr (Some ?doc), d @ [?doc])"
    using assms ne fresh
    by (simp add: createTicket_def Ticket_create_def Let_def falsy_def valid_status_def status_enum_def)
  then show ?thesis by blast
qed

subsection \<open>What updateTicket answers\<close>

lemma updateTicket_found:
  assumes t: "Ticket_findById d i = Some t" and ok: "\<not> denied u t"
  shows "updateTicket now1 now2 stamp u i b d =
     (let b' = (if being_resolved b t
                then b \<lparr> body_resolvedAt := Some (Some now1),
                         body_resolutionTime :=
                           Some (Some (of_int (Math_round (of_int (now2 - createdAt t) / (1000 * 60))))) \<rparr>
                else b)
      in case Ticket_findByIdAndUpdate stamp i b' d of
           Inl e \<Rightarrow> (Inl BadRequest, d)
         | Inr (None, d') \<Rightarrow> (Inl BadRequest, d')
         | Inr (Some t', d') \<Rightarrow> (Inr t', d'))"
proof -
  have p1: "(role u = ''user'' \<and> createdBy t \<noteq> uid u) = False"
   and p2: "(role u = ''agent'' \<and> (assignedTo t = None \<or> assignedTo t \<noteq> Some (uid u))) = False"
    using ok unfolding denied_def by blast+
  show ?thesis
  proof (cases "being_resolved b t")
    case True
    then have r: "being_resolved (b \<lparr> body_resolvedAt := Some (Some now1) \<rparr>) t"
      by (simp add: being_resolved_def)
    show ?thesis
      unfolding updateTicket_def t option.case p1 p2 if_False Let_def
      by (simp only: True r if_True)
  next
    case False
    show ?thesis
      unfolding updateTicket_def t option.case p1 p2 if_False Let_def
      by (simp only: False if_False)
  qed
qed

lemma updateTicket_denied:
  assumes t: "Ticket_findById d i = Some t" and no: "denied u t"
  shows "updateTicket now1 now2 stamp u i b d = (Inl AccessDenied, d)"
proof (cases "role u = ''user'' \<and> createdBy t \<noteq> uid u")
  case True
  then have c: "(role u = ''user'' \<and> createdBy t \<noteq> uid u) = True"
    by simp
  show ?thesis unfolding updateTicket_def t option.case c if_True by (rule refl)
next
  case False
  then have c: "(role u = ''user'' \<and> createdBy t \<noteq> uid u) = False"
    by simp
  from False no
  have a: "(role u = ''agent'' \<and> (assignedTo t = None \<or> assignedTo t \<noteq> Some (uid u))) = True"
    unfolding denied_def by blast
  show ?thesis unfolding updateTicket_def t option.case c a if_True if_False by (rule refl)
qed

lemma updateTicket_missing:
  "Ticket_findById d i = None \<Longrightarrow> updateTicket now1 now2 stamp u i b d = (Inl NotFound, d)"
  unfolding updateTicket_def by (simp only: option.case)


lemma updateTicket_Inr:
  assumes "updateTicket now1 now2 stamp u i b d = (Inr t', d')"
  obtains t b' where
    "Ticket_findById d i = Some t"
    "\<not> denied u t"
    "b' = (if being_resolved b t
           then b \<lparr> body_resolvedAt := Some (Some now1),
                    body_resolutionTime :=
                      Some (Some (of_int (Math_round (of_int (now2 - createdAt t) / (1000 * 60))))) \<rparr>
           else b)"
    "update_valid b'"
    "t' = apply_set stamp b' t"
    "d' = updateOne i (apply_set stamp b') d"
proof -
  obtain t where t: "Ticket_findById d i = Some t"
    using assms updateTicket_missing [of d i now1 now2 stamp u b]
    by (cases "Ticket_findById d i") auto
  have ok: "\<not> denied u t"
    using assms updateTicket_denied [OF t, of u now1 now2 stamp b] by auto
  define b' where "b' = (if being_resolved b t
           then b \<lparr> body_resolvedAt := Some (Some now1),
                    body_resolutionTime :=
                      Some (Some (of_int (Math_round (of_int (now2 - createdAt t) / (1000 * 60))))) \<rparr>
           else b)"
  have run: "(case Ticket_findByIdAndUpdate stamp i b' d of
           Inl e \<Rightarrow> (Inl BadRequest, d)
         | Inr (None, d') \<Rightarrow> (Inl BadRequest, d')
         | Inr (Some t', d') \<Rightarrow> (Inr t', d')) = (Inr t', d')"
    using assms unfolding updateTicket_found [OF t ok] b'_def Let_def .
  have v: "update_valid b'"
  proof (rule ccontr)
    assume "\<not> update_valid b'"
    then have "Ticket_findByIdAndUpdate stamp i b' d = Inl ValidationError"
      by (simp add: Ticket_findByIdAndUpdate_def)
    with run show False by simp
  qed
  then have "Ticket_findByIdAndUpdate stamp i b' d
               = Inr (Some (apply_set stamp b' t), updateOne i (apply_set stamp b') d)"
    by (simp add: Ticket_findByIdAndUpdate_def t)
  with run have "t' = apply_set stamp b' t" "d' = updateOne i (apply_set stamp b') d"
    by simp_all
  with t ok b'_def v that show ?thesis by blast
qed

lemma updateTicket_succeeds:
  assumes t: "Ticket_findById d i = Some t" and ok: "\<not> denied u t"
    and b': "b' = (if being_resolved b t
           then b \<lparr> body_resolvedAt := Some (Some now1),
                    body_resolutionTime :=
                      Some (Some (of_int (Math_round (of_int (now2 - createdAt t) / (1000 * 60))))) \<rparr>
           else b)"
    and v: "update_valid b"
  shows "updateTicket now1 now2 stamp u i b d
           = (Inr (apply_set stamp b' t), updateOne i (apply_set stamp b') d)"
proof -
  have "update_valid b'"
    using v unfolding b' by (simp add: update_valid_def)
  then have "Ticket_findByIdAndUpdate stamp i b' d
               = Inr (Some (apply_set stamp b' t), updateOne i (apply_set stamp b') d)"
    by (simp add: Ticket_findByIdAndUpdate_def t)
  then show ?thesis
    unfolding updateTicket_found [OF t ok] b' Let_def by simp
qed

lemma updateTicket_Inl_db:
  assumes "updateTicket now1 now2 stamp u i b d = (Inl e, d')"
  shows "d' = d"
proof (cases "Ticket_findById d i")
  case None
  with assms show ?thesis by (simp add: updateTicket_missing)
next
  case (Some t)
  show ?thesis
  proof (cases "denied u t")
    case True
    with assms Some show ?thesis by (simp add: updateTicket_denied)
  next
    case False
    from assms show ?thesis
      unfolding updateTicket_found [OF Some False] Let_def
      by (auto simp: Ticket_findByIdAndUpdate_def Some split: if_splits)
  qed
qed

lemma apply_set_fields:
  "ticket_id (apply_set stamp b t) = ticket_id t"
  "createdAt (apply_set stamp b t) = createdAt t"
  "comments (apply_set stamp b t) = comments t"
  "slaDeadline (apply_set stamp b t) = set_path (body_slaDeadline b) (slaDeadline t)"
  "createdBy (apply_set stamp b t) = set_path (body_createdBy b) (createdBy t)"
  "status (apply_set stamp b t) = set_path (body_status b) (status t)"
  "resolvedAt (apply_set stamp b t) = set_path (body_resolvedAt b) (resolvedAt t)"
  "resolutionTime (apply_set stamp b t) = set_path (body_resolutionTime b) (resolutionTime t)"
  by (simp_all add: apply_set_def)

text \<open>The ticket updateTicket answers with is the one the collection then holds.\<close>

lemma updateTicket_stored:
  assumes "updateTicket now1 now2 stamp u i b d = (Inr t', d')"
  shows "Ticket_findById d' i = Some t'"
proof -
  from assms obtain t b' where
    t: "Ticket_findById d i = Some t"
    and t': "t' = apply_set stamp b' t"
    and d': "d' = updateOne i (apply_set stamp b') d"
    by (rule updateTicket_Inr)
  show ?thesis
    unfolding d' t' by (simp add: findById_updateOne apply_set_fields t)
qed

subsection \<open>The derived SLA status\<close>

text \<open>
  C5. For every ticket and every read time \<open>now\<close>, the derived \<^verbatim>\<open>slaStatus\<close> is
  \<^verbatim>\<open>completed\<close> when the status is resolved or closed; otherwise
  \<^verbatim>\<open>breached\<close> when \<open>slaDeadline - now\<close> is strictly negative; otherwise
  \<^verbatim>\<open>warning\<close> when \<open>slaDeadline - now\<close> is strictly less than two hours
  (7200000 ms); otherwise \<^verbatim>\<open>normal\<close>.
\<close>

theorem slaStatus_cases:
  "slaStatus now t =
     (if status t = ''resolved'' \<or> status t = ''closed'' then ''completed''
      else if slaDeadline t - now < 0 then ''breached''
      else if slaDeadline t - now < 7200000 then ''warning''
      else ''normal'')"
  by (simp add: slaStatus_def Let_def)

text \<open>
  Scenario C: the ticket created at 0 with its deadline 24 hours later, still open, read
  after 1 hour, after 22.5 hours and after 25 hours; and read once it is resolved.
\<close>

theorem slaStatus_cases_witness:
  "slaStatus 3600000 ticket_T = ''normal''
   \<and> slaStatus 81000000 ticket_T = ''warning''
   \<and> slaStatus 90000000 ticket_T = ''breached''
   \<and> slaStatus 90000000 ticket_R = ''completed''"
  using slaStatus_cases [of 3600000 ticket_T] slaStatus_cases [of 81000000 ticket_T]
    slaStatus_cases [of 90000000 ticket_T] slaStatus_cases [of 90000000 ticket_R]
  by (simp add: ticket_T_def ticket_R_def)

subsection \<open>The SLA deadline of a new ticket\<close>

text \<open>
  C6 (as amended). For every ticket produced by the create operation, on a server whose
  offset from UTC at the handler's reading of the clock is also its offset for the local
  time 24 hours later (no change of the clocks in between), \<^verbatim>\<open>slaDeadline\<close> is that
  reading plus exactly 24 hours, and \<^verbatim>\<open>createdAt\<close> is the reading the store took
  when it saved the ticket; \<^verbatim>\<open>slaDeadline\<close> equals \<^verbatim>\<open>createdAt\<close> plus
  24 hours exactly when the two readings are the same millisecond.
\<close>

theorem createTicket_slaDeadline:
  assumes "createTicket z now stamp u b d = (Inr r, d')"
      and "z now True = off"
      and "z (now + off + 24 * msPerHour) False = off"
  shows "\<exists>t. r = Some t \<and> slaDeadline t = now + 24 * msPerHour \<and> createdAt t = stamp
           \<and> (slaDeadline t = createdAt t + 24 * msPerHour \<longleftrightarrow> stamp = now)"
proof -
  from assms(1) obtain t where
    t: "r = Some t" "slaDeadline t = setHours z now (getHours z now + 24)" "createdAt t = stamp"
    by (rule createTicket_Inr) simp
  have "slaDeadline t = now + 24 * msPerHour"
    using t(2) setHours_plus_24_same_offset [OF assms(2) assms(3)] by simp
  with t show ?thesis by auto
qed

text \<open>
  A ticket filed and saved in the same millisecond, on the server whose clocks went
  forward earlier that day: its offset is one hour at the reading and 24 hours later.
\<close>

theorem createTicket_slaDeadline_witness:
  "createTicket dst_zone 50000000 50000000 alice draft_T []
     = (Inr (Some (ticket_T \<lparr> assignedTo := None, slaDeadline := 136400000,
                              createdAt := 50000000, updatedAt := 50000000 \<rparr>)),
        [ticket_T \<lparr> assignedTo := None, slaDeadline := 136400000,
                    createdAt := 50000000, updatedAt := 50000000 \<rparr>])
   \<and> dst_zone 50000000 True = 3600000
   \<and> dst_zone (50000000 + 3600000 + 24 * msPerHour) False = 3600000
   \<and> dst_zone 0 True = 0
   \<and> slaDeadline (ticket_T \<lparr> assignedTo := None, slaDeadline := 136400000,
                              createdAt := 50000000, updatedAt := 50000000 \<rparr>)
       = 50000000 + 24 * msPerHour
   \<and> createdAt (ticket_T \<lparr> assignedTo := None, slaDeadline := 136400000,
                              createdAt := 50000000, updatedAt := 50000000 \<rparr>) = 50000000
   \<and> slaDeadline (ticket_T \<lparr> assignedTo := None, slaDeadline := 136400000,
                              createdAt := 50000000, updatedAt := 50000000 \<rparr>)
       = createdAt (ticket_T \<lparr> assignedTo := None, slaDeadline := 136400000,
                              createdAt := 50000000, updatedAt := 50000000 \<rparr>)
         + 24 * msPerHour"
proof -
  have run: "createTicket dst_zone 50000000 50000000 alice draft_T []
     = (Inr (Some (ticket_T \<lparr> assignedTo := None, slaDeadline := 136400000,
                              createdAt := 50000000, updatedAt := 50000000 \<rparr>)),
        [ticket_T \<lparr> assignedTo := None, slaDeadline := 136400000,
                    createdAt := 50000000, updatedAt := 50000000 \<rparr>])"
    by code_simp
  have zone: "dst_zone 50000000 True = 3600000"
    "dst_zone (50000000 + 3600000 + 24 * msPerHour) False = 3600000"
    "dst_zone 0 True = 0"
    by (simp_all add: dst_zone_def msPerHour_def)
  from createTicket_slaDeadline [OF run zone(1) zone(2)] run zone show ?thesis
    by auto
qed

text \<open>
  On the server in UTC the handler reads the clock at 0 and the store saves at 1: the
  deadline is one millisecond short of \<^verbatim>\<open>createdAt\<close> plus 24 hours. On the server
  whose clocks go forward at noon a ticket filed and saved at 0 has its deadline 23 hours
  after \<^verbatim>\<open>createdAt\<close>.
\<close>

theorem createTicket_slaDeadline_counterexample:
  "createTicket utc_zone 0 1 alice draft_T []
     = (Inr (Some (ticket_T \<lparr> assignedTo := None, createdAt := 1, updatedAt := 1 \<rparr>)),
        [ticket_T \<lparr> assignedTo := None, createdAt := 1, updatedAt := 1 \<rparr>])
   \<and> slaDeadline (ticket_T \<lparr> assignedTo := None, createdAt := 1, updatedAt := 1 \<rparr>)
       \<noteq> createdAt (ticket_T \<lparr> assignedTo := None, createdAt := 1, updatedAt := 1 \<rparr>)
           + 24 * 60 * 60 * 1000
   \<and> createTicket dst_zone 0 0 alice draft_T []
     = (Inr (Some (ticket_T \<lparr> assignedTo := None, slaDeadline := 82800000 \<rparr>)),
        [ticket_T \<lparr> assignedTo := None, slaDeadline := 82800000 \<rparr>])
   \<and> slaDeadline (ticket_T \<lparr> assignedTo := None, slaDeadline := 82800000 \<rparr>)
       \<noteq> createdAt (ticket_T \<lparr> assignedTo := None, slaDeadline := 82800000 \<rparr>)
           + 24 * 60 * 60 * 1000"
  by code_simp

subsection \<open>The keys createTicket reads\<close>

text \<open>
  C10. The create operation reads only \<^verbatim>\<open>title\<close>, \<^verbatim>\<open>description\<close>,
  \<^verbatim>\<open>category\<close> and \<^verbatim>\<open>priority\<close> from the draft: two drafts that agree on
  these get the same answer. Every ticket it creates has status \<^verbatim>\<open>open\<close>, no
  \<^verbatim>\<open>assignedTo\<close>, \<^verbatim>\<open>resolutionTime\<close> null and \<^verbatim>\<open>resolvedAt\<close> unset,
  whatever the draft supplies for those keys.
\<close>

theorem createTicket_reads_four_keys:
  "(body_title b' = body_title b \<and> body_description b' = body_description b
      \<and> body_category b' = body_category b \<and> body_priority b' = body_priority b
    \<longrightarrow> createTicket z now stamp u b' d = createTicket z now stamp u b d)
   \<and> (createTicket z now stamp u b d = (Inr r, d')
    \<longrightarrow> (\<exists>t. r = Some t \<and> status t = ''open'' \<and> assignedTo t = None
               \<and> resolutionTime t = None \<and> resolvedAt t = None))"
proof (intro conjI impI)
  assume "body_title b' = body_title b \<and> body_description b' = body_description b
      \<and> body_category b' = body_category b \<and> body_priority b' = body_priority b"
  then show "createTicket z now stamp u b' d = createTicket z now stamp u b d"
    by (simp add: createTicket_def)
next
  assume "createTicket z now stamp u b d = (Inr r, d')"
  then show "\<exists>t. r = Some t \<and> status t = ''open'' \<and> assignedTo t = None
               \<and> resolutionTime t = None \<and> resolvedAt t = None"
    by (rule createTicket_Inr) simp
qed

text \<open>A draft that supplies every other key is answered as the plain draft is.\<close>

theorem createTicket_reads_four_keys_witness:
  "createTicket utc_zone 0 0 alice
      (draft_T \<lparr> body_status := Some ''closed'', body_assignedTo := Some (Some (ObjectId 20)),
                 body_resolutionTime := Some (Some 5), body_resolvedAt := Some (Some 3),
                 body_createdBy := Some (ObjectId 11), body_slaDeadline := Some 9 \<rparr>) []
     = createTicket utc_zone 0 0 alice draft_T []
   \<and> createTicket utc_zone 0 0 alice draft_T []
     = (Inr (Some (ticket_T \<lparr> assignedTo := None \<rparr>)), [ticket_T \<lparr> assignedTo := None \<rparr>])
   \<and> status (ticket_T \<lparr> assignedTo := None \<rparr>) = ''open''
   \<and> assignedTo (ticket_T \<lparr> assignedTo := None \<rparr>) = None
   \<and> resolutionTime (ticket_T \<lparr> assignedTo := None \<rparr>) = None
   \<and> resolvedAt (ticket_T \<lparr> assignedTo := None \<rparr>) = None"
proof -
  have run: "createTicket utc_zone 0 0 alice draft_T []
     = (Inr (Some (ticket_T \<lparr> assignedTo := None \<rparr>)), [ticket_T \<lparr> assignedTo := None \<rparr>])"
    by code_simp
  show ?thesis
    using run
      createTicket_reads_four_keys [where b = draft_T and z = utc_zone and now = 0 and stamp = 0
        and u = alice and d = "[]" and r = "Some (ticket_T \<lparr> assignedTo := None \<rparr>)"
        and d' = "[ticket_T \<lparr> assignedTo := None \<rparr>]"
        and b' = "draft_T \<lparr> body_status := Some ''closed'',
                 body_assignedTo := Some (Some (ObjectId 20)),
                 body_resolutionTime := Some (Some 5), body_resolvedAt := Some (Some 3),
                 body_createdBy := Some (ObjectId 11), body_slaDeadline := Some 9 \<rparr>"]
    by auto
qed

subsection \<open>What a write leaves alone\<close>

lemma map_updateOne:
  "(\<And>t. f (g t) = f t) \<Longrightarrow> map f (updateOne i g d) = map f d"
  by (induction d) auto

lemma updateTicket_db:
  "snd (updateTicket now1 now2 stamp u i b d) = d
   \<or> (\<exists>t b'. Ticket_findById d i = Some t
         \<and> body_slaDeadline b' = body_slaDeadline b \<and> body_createdBy b' = body_createdBy b
         \<and> snd (updateTicket now1 now2 stamp u i b d) = updateOne i (apply_set stamp b') d)"
proof (cases "updateTicket now1 now2 stamp u i b d")
  case (Pair r d')
  show ?thesis
  proof (cases r)
    case (Inl e)
    with Pair have "d' = d" by (simp add: updateTicket_Inl_db)
    with Pair show ?thesis by simp
  next
    case (Inr t')
    with Pair have "updateTicket now1 now2 stamp u i b d = (Inr t', d')" by simp
    then obtain t b' where
      t: "Ticket_findById d i = Some t"
      and b': "b' = (if being_resolved b t
           then b \<lparr> body_resolvedAt := Some (Some now1),
                    body_resolutionTime :=
                      Some (Some (of_int (Math_round (of_int (now2 - createdAt t) / (1000 * 60))))) \<rparr>
           else b)"
      and d': "d' = updateOne i (apply_set stamp b') d"
      by (rule updateTicket_Inr)
    have "body_slaDeadline b' = body_slaDeadline b" "body_createdBy b' = body_createdBy b"
      unfolding b' by simp_all
    with t d' Pair show ?thesis by auto
  qed
qed

lemma addComment_db:
  "snd (addComment stamp u i b d) = d
   \<or> (\<exists>c. snd (addComment stamp u i b d) = updateOne i (push_comment stamp c) d)"
  by (auto simp: addComment_def Ticket_save_comment_def Let_def dest: findById_Some_id
           split: option.splits if_splits)

lemma push_comment_fields:
  "slaDeadline (push_comment stamp c t) = slaDeadline t"
  "createdBy (push_comment stamp c t) = createdBy t"
  "status (push_comment stamp c t) = status t"
  "resolvedAt (push_comment stamp c t) = resolvedAt t"
  "resolutionTime (push_comment stamp c t) = resolutionTime t"
  by (simp_all add: push_comment_def)

lemma set_path_simps:
  "set_path None old = old" "set_path (Some x) old = x"
  by (simp_all add: set_path_def)

subsection \<open>Fields no handler computes: slaDeadline and createdBy\<close>

text \<open>
  C2 (as amended). For every ticket and every update, \<^verbatim>\<open>slaDeadline\<close> and
  \<^verbatim>\<open>createdBy\<close> after the update are the values before it, unless the patch itself
  carries the key: then the value of the patch is stored. An update whose patch carries
  neither key leaves both fields of every stored ticket as they were, and so does adding
  a comment.
\<close>

theorem update_slaDeadline_createdBy:
  "(updateTicket nowA nowB stamp u i b d = (Inr t', d') \<and> Ticket_findById d i = Some t
    \<longrightarrow> slaDeadline t' = (case body_slaDeadline b of None \<Rightarrow> slaDeadline t | Some x \<Rightarrow> x)
        \<and> createdBy t' = (case body_createdBy b of None \<Rightarrow> createdBy t | Some x \<Rightarrow> x))
   \<and> (body_slaDeadline b = None
    \<longrightarrow> map slaDeadline (snd (updateTicket nowA nowB stamp u i b d)) = map slaDeadline d)
   \<and> (body_createdBy b = None
    \<longrightarrow> map createdBy (snd (updateTicket nowA nowB stamp u i b d)) = map createdBy d)
   \<and> map slaDeadline (snd (addComment stamp u i b d)) = map slaDeadline d
   \<and> map createdBy (snd (addComment stamp u i b d)) = map createdBy d"
proof (intro conjI impI)
  assume "updateTicket nowA nowB stamp u i b d = (Inr t', d') \<and> Ticket_findById d i = Some t"
  then have run: "updateTicket nowA nowB stamp u i b d = (Inr t', d')"
    and t: "Ticket_findById d i = Some t" by simp_all
  from run obtain t0 b' where
    "Ticket_findById d i = Some t0"
    and b': "b' = (if being_resolved b t0
           then b \<lparr> body_resolvedAt := Some (Some nowA),
                    body_resolutionTime :=
                      Some (Some (of_int (Math_round (of_int (nowB - createdAt t0) / (1000 * 60))))) \<rparr>
           else b)"
    and t': "t' = apply_set stamp b' t0"
    by (rule updateTicket_Inr)
  with t have [simp]: "t0 = t" by simp
  have keys: "body_slaDeadline b' = body_slaDeadline b" "body_createdBy b' = body_createdBy b"
    unfolding b' by simp_all
  show "slaDeadline t' = (case body_slaDeadline b of None \<Rightarrow> slaDeadline t | Some x \<Rightarrow> x)"
    using keys by (simp add: t' apply_set_fields set_path_def)
  show "createdBy t' = (case body_createdBy b of None \<Rightarrow> createdBy t | Some x \<Rightarrow> x)"
    using keys by (simp add: t' apply_set_fields set_path_def)
next
  assume "body_slaDeadline b = None"
  then show "map slaDeadline (snd (updateTicket nowA nowB stamp u i b d)) = map slaDeadline d"
    using updateTicket_db [of nowA nowB stamp u i b d]
    by (auto simp: map_updateOne apply_set_fields set_path_simps)
next
  assume "body_createdBy b = None"
  then show "map createdBy (snd (updateTicket nowA nowB stamp u i b d)) = map createdBy d"
    using updateTicket_db [of nowA nowB stamp u i b d]
    by (auto simp: map_updateOne apply_set_fields set_path_simps)
next
  show "map slaDeadline (snd (addComment stamp u i b d)) = map slaDeadline d"
    using addComment_db [of stamp u i b d] by (auto simp: map_updateOne push_comment_fields)
  show "map createdBy (snd (addComment stamp u i b d)) = map createdBy d"
    using addComment_db [of stamp u i b d] by (auto simp: map_updateOne push_comment_fields)
qed

text \<open>
  Scenario B: the agent the ticket is assigned to resolves it after 30 minutes; the
  deadline and the creator stay.
\<close>

theorem update_slaDeadline_createdBy_witness:
  "updateTicket 1800000 1800000 1800000 grace (ObjectId 1)
      (empty_body \<lparr> body_status := Some ''resolved'' \<rparr>) [ticket_T]
     = (Inr (ticket_T \<lparr> status := ''resolved'', resolutionTime := Some 30,
                        resolvedAt := Some 1800000, updatedAt := 1800000 \<rparr>),
        [ticket_T \<lparr> status := ''resolved'', resolutionTime := Some 30,
                    resolvedAt := Some 1800000, updatedAt := 1800000 \<rparr>])
   \<and> Ticket_findById [ticket_T] (ObjectId 1) = Some ticket_T
   \<and> body_slaDeadline (empty_body \<lparr> body_status := Some ''resolved'' \<rparr>) = None
   \<and> body_createdBy (empty_body \<lparr> body_status := Some ''resolved'' \<rparr>) = None
   \<and> slaDeadline (ticket_T \<lparr> status := ''resolved'', resolutionTime := Some 30,
                    resolvedAt := Some 1800000, updatedAt := 1800000 \<rparr>) = slaDeadline ticket_T
   \<and> createdBy (ticket_T \<lparr> status := ''resolved'', resolutionTime := Some 30,
                    resolvedAt := Some 1800000, updatedAt := 1800000 \<rparr>) = createdBy ticket_T
   \<and> map slaDeadline (snd (updateTicket 1800000 1800000 1800000 grace (ObjectId 1)
          (empty_body \<lparr> body_status := Some ''resolved'' \<rparr>) [ticket_T])) = map slaDeadline [ticket_T]
   \<and> map createdBy (snd (updateTicket 1800000 1800000 1800000 grace (ObjectId 1)
          (empty_body \<lparr> body_status := Some ''resolved'' \<rparr>) [ticket_T])) = map createdBy [ticket_T]"
proof -
  have run: "updateTicket 1800000 1800000 1800000 grace (ObjectId 1)
      (empty_body \<lparr> body_status := Some ''resolved'' \<rparr>) [ticket_T]
     = (Inr (ticket_T \<lparr> status := ''resolved'', resolutionTime := Some 30,
                        resolvedAt := Some 1800000, updatedAt := 1800000 \<rparr>),
        [ticket_T \<lparr> status := ''resolved'', resolutionTime := Some 30,
                    resolvedAt := Some 1800000, updatedAt := 1800000 \<rparr>])"
    by code_simp
  have found: "Ticket_findById [ticket_T] (ObjectId 1) = Some ticket_T"
    by code_simp
  have keys: "body_slaDeadline (empty_body \<lparr> body_status := Some ''resolved'' \<rparr>) = None"
    "body_createdBy (empty_body \<lparr> body_status := Some ''resolved'' \<rparr>) = None"
    by (simp_all add: empty_body_def)
  show ?thesis
    using run found keys
      update_slaDeadline_createdBy [where nowA = 1800000 and nowB = 1800000 and stamp = 1800000
        and u = grace and i = "ObjectId 1" and d = "[ticket_T]" and t = ticket_T
        and b = "empty_body \<lparr> body_status := Some ''resolved'' \<rparr>"
        and t' = "ticket_T \<lparr> status := ''resolved'', resolutionTime := Some 30,
                    resolvedAt := Some 1800000, updatedAt := 1800000 \<rparr>"
        and d' = "[ticket_T \<lparr> status := ''resolved'', resolutionTime := Some 30,
                    resolvedAt := Some 1800000, updatedAt := 1800000 \<rparr>]"]
    by simp
qed

text \<open>
  The creator of the ticket sends a patch with \<^verbatim>\<open>slaDeadline\<close> and
  \<^verbatim>\<open>createdBy\<close>: both are written.
\<close>

theorem update_slaDeadline_createdBy_counterexample:
  "updateTicket 5 5 5 alice (ObjectId 1)
      (empty_body \<lparr> body_createdBy := Some (ObjectId 11), body_slaDeadline := Some 7 \<rparr>) [ticket_T]
     = (Inr (ticket_T \<lparr> createdBy := ObjectId 11, slaDeadline := 7, updatedAt := 5 \<rparr>),
        [ticket_T \<lparr> createdBy := ObjectId 11, slaDeadline := 7, updatedAt := 5 \<rparr>])
   \<and> slaDeadline (ticket_T \<lparr> createdBy := ObjectId 11, slaDeadline := 7, updatedAt := 5 \<rparr>)
       \<noteq> slaDeadline ticket_T
   \<and> createdBy (ticket_T \<lparr> createdBy := ObjectId 11, slaDeadline := 7, updatedAt := 5 \<rparr>)
       \<noteq> createdBy ticket_T"
  by code_simp

subsection \<open>Resolution on update\<close>

text \<open>
  What a successful update leaves in \<^verbatim>\<open>resolvedAt\<close> and
  \<^verbatim>\<open>resolutionTime\<close>. The minutes are counted up to the second reading of the
  clock.
\<close>

lemma updateTicket_resolution_fields:
  assumes run: "updateTicket nowA nowB stamp u i b d = (Inr t', d')"
    and t: "Ticket_findById d i = Some t"
  shows "if body_status b = Some ''resolved'' \<and> status t \<noteq> ''resolved''
         then resolvedAt t' = Some nowA
              \<and> resolutionTime t'
                  = Some (of_int (Math_round (of_int (nowB - createdAt t) / 60000)))
         else resolvedAt t' = (case body_resolvedAt b of None \<Rightarrow> resolvedAt t | Some v \<Rightarrow> v)
              \<and> resolutionTime t'
                  = (case body_resolutionTime b of None \<Rightarrow> resolutionTime t | Some v \<Rightarrow> v)"
proof -
  from run obtain t0 b' where
    t0: "Ticket_findById d i = Some t0"
    and b': "b' = (if being_resolved b t0
           then b \<lparr> body_resolvedAt := Some (Some nowA),
                    body_resolutionTime :=
                      Some (Some (of_int (Math_round (of_int (nowB - createdAt t0) / (1000 * 60))))) \<rparr>
           else b)"
    and t': "t' = apply_set stamp b' t0"
    by (rule updateTicket_Inr)
  from t t0 have same: "t0 = t" by simp
  have m: "(1000 * 60 :: rat) = 60000" by simp
  show ?thesis
  proof (cases "being_resolved b t")
    case True
    then have c: "body_status b = Some ''resolved'' \<and> status t \<noteq> ''resolved''"
      unfolding being_resolved_def .
    from True have "b' = b \<lparr> body_resolvedAt := Some (Some nowA),
                    body_resolutionTime :=
                      Some (Some (of_int (Math_round (of_int (nowB - createdAt t) / 60000)))) \<rparr>"
      unfolding b' same m by (simp only: if_True)
    then have "body_resolvedAt b' = Some (Some nowA)"
      "body_resolutionTime b'
         = Some (Some (of_int (Math_round (of_int (nowB - createdAt t) / 60000))))"
      by simp_all
    then have "resolvedAt t' = Some nowA
              \<and> resolutionTime t'
                  = Some (of_int (Math_round (of_int (nowB - createdAt t) / 60000)))"
      unfolding t' apply_set_fields by (simp only: set_path_simps simp_thms)
    then show ?thesis
      unfolding if_P [OF c] .
  next
    case False
    then have c: "\<not> (body_status b = Some ''resolved'' \<and> status t \<noteq> ''resolved'')"
      unfolding being_resolved_def .
    from False have "b' = b" unfolding b' same by (simp only: if_False)
    then have "resolvedAt t' = set_path (body_resolvedAt b) (resolvedAt t)
       \<and> resolutionTime t' = set_path (body_resolutionTime b) (resolutionTime t)"
      unfolding t' apply_set_fields same by (simp only: simp_thms)
    then show ?thesis
      unfolding if_not_P [OF c] set_path_def .
  qed
qed

text \<open>
  C4 (as amended). An update by a principal the permission check lets through, with a
  patch the validators accept, answers with the updated ticket. When the patch sets
  status to \<^verbatim>\<open>resolved\<close> and the status before the update is not
  \<^verbatim>\<open>resolved\<close>, the updated ticket has \<^verbatim>\<open>resolvedAt\<close> set to the current
  time, and, the second reading of the clock being that same instant,
  \<^verbatim>\<open>resolutionTime\<close> is \<open>round((resolvedAt - createdAt) / 60000)\<close> minutes, for
  the \<^verbatim>\<open>createdAt\<close> before the update. Every other update (re-setting
  \<^verbatim>\<open>resolved\<close> on a resolved ticket included) leaves \<^verbatim>\<open>resolvedAt\<close> and
  \<^verbatim>\<open>resolutionTime\<close> as stored, unless the patch itself carries the key: then the
  value of the patch is stored.
\<close>

theorem updateTicket_resolution:
  "(Ticket_findById d i = Some t \<and> \<not> denied u t \<and> update_valid b
    \<longrightarrow> (\<exists>t' d'. updateTicket nowA nowB stamp u i b d = (Inr t', d')))
   \<and> (updateTicket nowA nowB stamp u i b d = (Inr t', d') \<and> Ticket_findById d i = Some t
    \<longrightarrow> (if body_status b = Some ''resolved'' \<and> status t \<noteq> ''resolved''
         then resolvedAt t' = Some nowA
              \<and> (nowB = nowA
                 \<longrightarrow> resolutionTime t'
                      = Some (of_int (Math_round (of_int (nowA - createdAt t) / 60000))))
         else resolvedAt t' = (case body_resolvedAt b of None \<Rightarrow> resolvedAt t | Some v \<Rightarrow> v)
              \<and> resolutionTime t'
                  = (case body_resolutionTime b of None \<Rightarrow> resolutionTime t | Some v \<Rightarrow> v)))"
proof (intro conjI impI)
  assume "Ticket_findById d i = Some t \<and> \<not> denied u t \<and> update_valid b"
  then have t: "Ticket_findById d i = Some t" and ok: "\<not> denied u t" and v: "update_valid b"
    by blast+
  show "\<exists>t' d'. updateTicket nowA nowB stamp u i b d = (Inr t', d')"
    using updateTicket_succeeds [OF t ok refl v] by (intro exI)
next
  assume "updateTicket nowA nowB stamp u i b d = (Inr t', d') \<and> Ticket_findById d i = Some t"
  then have run: "updateTicket nowA nowB stamp u i b d = (Inr t', d')"
    and t: "Ticket_findById d i = Some t" by blast+
  show "if body_status b = Some ''resolved'' \<and> status t \<noteq> ''resolved''
         then resolvedAt t' = Some nowA
              \<and> (nowB = nowA
                 \<longrightarrow> resolutionTime t'
                      = Some (of_int (Math_round (of_int (nowA - createdAt t) / 60000))))
         else resolvedAt t' = (case body_resolvedAt b of None \<Rightarrow> resolvedAt t | Some v \<Rightarrow> v)
              \<and> resolutionTime t'
                  = (case body_resolutionTime b of None \<Rightarrow> resolutionTime t | Some v \<Rightarrow> v)"
    using updateTicket_resolution_fields [OF run t]
    by (cases "body_status b = Some ''resolved'' \<and> status t \<noteq> ''resolved''") auto
qed

text \<open>
  Scenario B: the ticket, created at 0, is resolved by its agent after 30 minutes.
\<close>

theorem updateTicket_resolution_witness:
  "Ticket_findById [ticket_T] (ObjectId 1) = Some ticket_T
   \<and> \<not> denied grace ticket_T
   \<and> update_valid (empty_body \<lparr> body_status := Some ''resolved'' \<rparr>)
   \<and> updateTicket 1800000 1800000 1800000 grace (ObjectId 1)
        (empty_body \<lparr> body_status := Some ''resolved'' \<rparr>) [ticket_T]
     = (Inr (ticket_T \<lparr> status := ''resolved'', resolutionTime := Some 30,
                        resolvedAt := Some 1800000, updatedAt := 1800000 \<rparr>),
        [ticket_T \<lparr> status := ''resolved'', resolutionTime := Some 30,
                    resolvedAt := Some 1800000, updatedAt := 1800000 \<rparr>])
   \<and> body_status (empty_body \<lparr> body_status := Some ''resolved'' \<rparr>) = Some ''resolved''
   \<and> status ticket_T \<noteq> ''resolved''
   \<and> resolvedAt (ticket_T \<lparr> status := ''resolved'', resolutionTime := Some 30,
                    resolvedAt := Some 1800000, updatedAt := 1800000 \<rparr>) = Some 1800000
   \<and> resolutionTime (ticket_T \<lparr> status := ''resolved'', resolutionTime := Some 30,
                    resolvedAt := Some 1800000, updatedAt := 1800000 \<rparr>)
       = Some (of_int (Math_round (of_int (1800000 - createdAt ticket_T) / 60000)))"
proof -
  have run: "updateTicket 1800000 1800000 1800000 grace (ObjectId 1)
      (empty_body \<lparr> body_status := Some ''resolved'' \<rparr>) [ticket_T]
     = (Inr (ticket_T \<lparr> status := ''resolved'', resolutionTime := Some 30,
                        resolvedAt := Some 1800000, updatedAt := 1800000 \<rparr>),
        [ticket_T \<lparr> status := ''resolved'', resolutionTime := Some 30,
                    resolvedAt := Some 1800000, updatedAt := 1800000 \<rparr>])"
    by code_simp
  have found: "Ticket_findById [ticket_T] (ObjectId 1) = Some ticket_T"
    by code_simp
  have ok: "\<not> denied grace ticket_T"
    by code_simp
  have valid: "update_valid (empty_body \<lparr> body_status := Some ''resolved'' \<rparr>)"
    by code_simp
  have st: "body_status (empty_body \<lparr> body_status := Some ''resolved'' \<rparr>) = Some ''resolved''"
    "status ticket_T \<noteq> ''resolved''"
    by (simp_all add: ticket_T_def)
  show ?thesis
    using run found ok valid st
      updateTicket_resolution [where nowA = 1800000 and nowB = 1800000 and stamp = 1800000
        and u = grace and i = "ObjectId 1" and d = "[ticket_T]" and t = ticket_T
        and b = "empty_body \<lparr> body_status := Some ''resolved'' \<rparr>"
        and t' = "ticket_T \<lparr> status := ''resolved'', resolutionTime := Some 30,
                    resolvedAt := Some 1800000, updatedAt := 1800000 \<rparr>"
        and d' = "[ticket_T \<lparr> status := ''resolved'', resolutionTime := Some 30,
                    resolvedAt := Some 1800000, updatedAt := 1800000 \<rparr>]"]
    by simp
qed

text \<open>
  Two updates by the agent of the ticket. The first patch sets no status and carries
  \<^verbatim>\<open>resolutionTime\<close> and \<^verbatim>\<open>resolvedAt\<close>: both are written. The second
  resolves the ticket, with the two readings of the clock one millisecond apart, at the
  half minute: \<^verbatim>\<open>resolvedAt\<close> is 29999, whose rounded minutes are 0, and
  \<^verbatim>\<open>resolutionTime\<close> is 1.
\<close>

theorem updateTicket_resolution_counterexample:
  "updateTicket 5 5 5 grace (ObjectId 1)
      (empty_body \<lparr> body_resolutionTime := Some (Some 99), body_resolvedAt := Some (Some 1) \<rparr>)
      [ticket_T]
     = (Inr (ticket_T \<lparr> resolutionTime := Some 99, resolvedAt := Some 1, updatedAt := 5 \<rparr>),
        [ticket_T \<lparr> resolutionTime := Some 99, resolvedAt := Some 1, updatedAt := 5 \<rparr>])
   \<and> resolutionTime (ticket_T \<lparr> resolutionTime := Some 99, resolvedAt := Some 1, updatedAt := 5 \<rparr>)
       \<noteq> resolutionTime ticket_T
   \<and> resolvedAt (ticket_T \<lparr> resolutionTime := Some 99, resolvedAt := Some 1, updatedAt := 5 \<rparr>)
       \<noteq> resolvedAt ticket_T
   \<and> updateTicket 29999 30000 30000 grace (ObjectId 1)
        (empty_body \<lparr> body_status := Some ''resolved'' \<rparr>) [ticket_T]
     = (Inr (ticket_T \<lparr> status := ''resolved'', resolutionTime := Some 1,
                        resolvedAt := Some 29999, updatedAt := 30000 \<rparr>),
        [ticket_T \<lparr> status := ''resolved'', resolutionTime := Some 1,
                    resolvedAt := Some 29999, updatedAt := 30000 \<rparr>])
   \<and> Math_round (of_int (29999 - createdAt ticket_T) / 60000) = 0"
  by code_simp

subsection \<open>Creation yields an open ticket; an update to the same status\<close>

text \<open>
  C8 (as amended). Creating a ticket always yields a ticket with status \<^verbatim>\<open>open\<close>,
  and a draft that passes the checks of the handler and of the schema does yield one.
  An authorized update whose patch sets status to the ticket's current status leaves the
  status as it is and \<^verbatim>\<open>resolvedAt\<close> and \<^verbatim>\<open>resolutionTime\<close> unchanged,
  unless the patch itself carries \<^verbatim>\<open>resolvedAt\<close> or \<^verbatim>\<open>resolutionTime\<close>:
  then the value of the patch is stored.
\<close>

theorem create_open_update_same_status:
  "(createTicket z now stamp u b d = (Inr r, d')
    \<longrightarrow> (\<exists>t. r = Some t \<and> status t = ''open''))
   \<and> (body_title b = Some ttl \<and> body_description b = Some descr
        \<and> body_category b = Some cat \<and> body_priority b = Some prio
        \<and> ttl \<noteq> [] \<and> descr \<noteq> [] \<and> valid_title (trim ttl) \<and> valid_description (trim descr)
        \<and> valid_category cat \<and> valid_priority prio
    \<longrightarrow> (\<exists>t. createTicket z now stamp u b d = (Inr (Some t), d @ [t]) \<and> status t = ''open''))
   \<and> (updateTicket nowA nowB stamp u i p d = (Inr t', d'') \<and> Ticket_findById d i = Some t
        \<and> body_status p = Some (status t)
    \<longrightarrow> status t' = status t
        \<and> resolvedAt t' = (case body_resolvedAt p of None \<Rightarrow> resolvedAt t | Some v \<Rightarrow> v)
        \<and> resolutionTime t'
            = (case body_resolutionTime p of None \<Rightarrow> resolutionTime t | Some v \<Rightarrow> v))"
proof (intro conjI impI)
  assume "createTicket z now stamp u b d = (Inr r, d')"
  then show "\<exists>t. r = Some t \<and> status t = ''open''"
    by (rule createTicket_Inr) simp
next
  assume a: "body_title b = Some ttl \<and> body_description b = Some descr
        \<and> body_category b = Some cat \<and> body_priority b = Some prio
        \<and> ttl \<noteq> [] \<and> descr \<noteq> [] \<and> valid_title (trim ttl) \<and> valid_description (trim descr)
        \<and> valid_category cat \<and> valid_priority prio"
  then obtain t where run: "createTicket z now stamp u b d = (Inr (Some t), d @ [t])"
    using createTicket_succeeds [of b ttl descr cat prio z now stamp u d] by blast
  then have "status t = ''open''"
    by (rule createTicket_Inr) simp
  with run show "\<exists>t. createTicket z now stamp u b d = (Inr (Some t), d @ [t]) \<and> status t = ''open''"
    by blast
next
  assume "updateTicket nowA nowB stamp u i p d = (Inr t', d'') \<and> Ticket_findById d i = Some t
        \<and> body_status p = Some (status t)"
  then have run: "updateTicket nowA nowB stamp u i p d = (Inr t', d'')"
    and t: "Ticket_findById d i = Some t" and same_status: "body_status p = Some (status t)"
    by blast+
  from run obtain t0 p' where
    t0: "Ticket_findById d i = Some t0"
    and p': "p' = (if being_resolved p t0
           then p \<lparr> body_resolvedAt := Some (Some nowA),
                    body_resolutionTime :=
                      Some (Some (of_int (Math_round (of_int (nowB - createdAt t0) / (1000 * 60))))) \<rparr>
           else p)"
    and t': "t' = apply_set stamp p' t0"
    by (rule updateTicket_Inr)
  from t t0 have same: "t0 = t" by simp
  have "\<not> being_resolved p t"
    using same_status by (simp add: being_resolved_def)
  then have "p' = p" unfolding p' same by (simp only: if_False)
  then have "status t' = set_path (body_status p) (status t)
       \<and> resolvedAt t' = set_path (body_resolvedAt p) (resolvedAt t)
       \<and> resolutionTime t' = set_path (body_resolutionTime p) (resolutionTime t)"
    unfolding t' apply_set_fields same by (simp only: simp_thms)
  then have fields: "status t' = status t
        \<and> resolvedAt t' = (case body_resolvedAt p of None \<Rightarrow> resolvedAt t | Some v \<Rightarrow> v)
        \<and> resolutionTime t'
            = (case body_resolutionTime p of None \<Rightarrow> resolutionTime t | Some v \<Rightarrow> v)"
    unfolding same_status set_path_def by simp
  from fields show "status t' = status t" by blast
  from fields show
    "resolvedAt t' = (case body_resolvedAt p of None \<Rightarrow> resolvedAt t | Some v \<Rightarrow> v)"
    by blast
  from fields show
    "resolutionTime t' = (case body_resolutionTime p of None \<Rightarrow> resolutionTime t | Some v \<Rightarrow> v)"
    by blast
qed

text \<open>
  Scenario A, the creation of the ticket; then its agent sets the status it has.
\<close>

theorem create_open_update_same_status_witness:
  "createTicket utc_zone 0 0 alice draft_T []
     = (Inr (Some (ticket_T \<lparr> assignedTo := None \<rparr>)), [] @ [ticket_T \<lparr> assignedTo := None \<rparr>])
   \<and> status (ticket_T \<lparr> assignedTo := None \<rparr>) = ''open''
   \<and> body_title draft_T = Some ''Printer'' \<and> body_description draft_T = Some ''It jams''
   \<and> body_category draft_T = Some ''bug'' \<and> body_priority draft_T = Some ''high''
   \<and> valid_title (trim ''Printer'') \<and> valid_description (trim ''It jams'')
   \<and> valid_category ''bug'' \<and> valid_priority ''high''
   \<and> updateTicket 5 5 5 grace (ObjectId 1) (empty_body \<lparr> body_status := Some ''open'' \<rparr>) [ticket_T]
     = (Inr (ticket_T \<lparr> updatedAt := 5 \<rparr>), [ticket_T \<lparr> updatedAt := 5 \<rparr>])
   \<and> Ticket_findById [ticket_T] (ObjectId 1) = Some ticket_T
   \<and> body_status (empty_body \<lparr> body_status := Some ''open'' \<rparr>) = Some (status ticket_T)
   \<and> status (ticket_T \<lparr> updatedAt := 5 \<rparr>) = status ticket_T
   \<and> resolvedAt (ticket_T \<lparr> updatedAt := 5 \<rparr>) = resolvedAt ticket_T
   \<and> resolutionTime (ticket_T \<lparr> updatedAt := 5 \<rparr>) = resolutionTime ticket_T"
proof -
  have create: "createTicket utc_zone 0 0 alice draft_T []
     = (Inr (Some (ticket_T \<lparr> assignedTo := None \<rparr>)), [] @ [ticket_T \<lparr> assignedTo := None \<rparr>])"
    by code_simp
  have draft: "body_title draft_T = Some ''Printer'' \<and> body_description draft_T = Some ''It jams''
   \<and> body_category draft_T = Some ''bug'' \<and> body_priority draft_T = Some ''high''
   \<and> valid_title (trim ''Printer'') \<and> valid_description (trim ''It jams'')
   \<and> valid_category ''bug'' \<and> valid_priority ''high''"
    by code_simp
  have update: "updateTicket 5 5 5 grace (ObjectId 1) (empty_body \<lparr> body_status := Some ''open'' \<rparr>)
       [ticket_T]
     = (Inr (ticket_T \<lparr> updatedAt := 5 \<rparr>), [ticket_T \<lparr> updatedAt := 5 \<rparr>])"
    by code_simp
  have found: "Ticket_findById [ticket_T] (ObjectId 1) = Some ticket_T"
    by code_simp
  have st: "body_status (empty_body \<lparr> body_status := Some ''open'' \<rparr>) = Some (status ticket_T)"
    by (simp add: ticket_T_def)
  have keys: "body_resolvedAt (empty_body \<lparr> body_status := Some ''open'' \<rparr>) = None"
    "body_resolutionTime (empty_body \<lparr> body_status := Some ''open'' \<rparr>) = None"
    by (simp_all add: empty_body_def)
  show ?thesis
    using create draft update found st keys
      create_open_update_same_status [where z = utc_zone and now = 0 and stamp = 0 and u = alice
        and b = draft_T and d = "[]" and r = "Some (ticket_T \<lparr> assignedTo := None \<rparr>)"
        and d' = "[] @ [ticket_T \<lparr> assignedTo := None \<rparr>]"
        and ttl = "''Printer''" and descr = "''It jams''" and cat = "''bug''" and prio = "''high''"]
      create_open_update_same_status [where stamp = 5 and u = grace
        and d = "[ticket_T]" and nowA = 5 and nowB = 5 and i = "ObjectId 1"
        and p = "empty_body \<lparr> body_status := Some ''open'' \<rparr>" and t = ticket_T
        and t' = "ticket_T \<lparr> updatedAt := 5 \<rparr>" and d'' = "[ticket_T \<lparr> updatedAt := 5 \<rparr>]"]
    by simp
qed

text \<open>
  The agent of the open ticket sets its status to \<^verbatim>\<open>open\<close> again, with
  \<^verbatim>\<open>resolutionTime\<close> and \<^verbatim>\<open>resolvedAt\<close> in the same patch.
\<close>

theorem create_open_update_same_status_counterexample:
  "body_status (empty_body \<lparr> body_status := Some ''open'', body_resolutionTime := Some (Some 99),
                             body_resolvedAt := Some (Some 1) \<rparr>) = Some (status ticket_T)
   \<and> updateTicket 5 5 5 grace (ObjectId 1)
        (empty_body \<lparr> body_status := Some ''open'', body_resolutionTime := Some (Some 99),
                      body_resolvedAt := Some (Some 1) \<rparr>) [ticket_T]
     = (Inr (ticket_T \<lparr> resolutionTime := Some 99, resolvedAt := Some 1, updatedAt := 5 \<rparr>),
        [ticket_T \<lparr> resolutionTime := Some 99, resolvedAt := Some 1, updatedAt := 5 \<rparr>])
   \<and> resolutionTime (ticket_T \<lparr> resolutionTime := Some 99, resolvedAt := Some 1, updatedAt := 5 \<rparr>)
       \<noteq> resolutionTime ticket_T
   \<and> resolvedAt (ticket_T \<lparr> resolutionTime := Some 99, resolvedAt := Some 1, updatedAt := 5 \<rparr>)
       \<noteq> resolvedAt ticket_T"
  by code_simp

subsection \<open>Who may read a ticket\<close>

lemma getTicket_denied:
  "getTicket u i d =
     (case Ticket_findById d i of
        None \<Rightarrow> Inl NotFound
      | Some t \<Rightarrow> if denied u t then Inl AccessDenied else Inr t)"
  by (auto simp: getTicket_def denied_def split: option.splits)

text \<open>
  C3. When the requested id resolves to no ticket, the answer is not-found, for every
  role. For a principal whose role is \<^verbatim>\<open>user\<close>, \<^verbatim>\<open>agent\<close> or
  \<^verbatim>\<open>admin\<close> and a ticket the id resolves to, the get operation succeeds (and
  answers with that ticket) iff the role is admin, or the role is user and
  \<^verbatim>\<open>createdBy\<close> is the principal's id, or the role is agent and
  \<^verbatim>\<open>assignedTo\<close> is present and is the principal's id; it answers access-denied iff
  the ticket exists and that condition fails.
\<close>

theorem getTicket_access:
  "(Ticket_findById d i = None \<longrightarrow> getTicket u i d = Inl NotFound)
   \<and> (role u \<in> {''user'', ''agent'', ''admin''} \<and> Ticket_findById d i = Some t
    \<longrightarrow> ((\<exists>r. getTicket u i d = Inr r)
           \<longleftrightarrow> role u = ''admin'' \<or> (role u = ''user'' \<and> createdBy t = uid u)
               \<or> (role u = ''agent'' \<and> assignedTo t = Some (uid u)))
        \<and> (getTicket u i d = Inr t
           \<longleftrightarrow> role u = ''admin'' \<or> (role u = ''user'' \<and> createdBy t = uid u)
               \<or> (role u = ''agent'' \<and> assignedTo t = Some (uid u)))
        \<and> (getTicket u i d = Inl AccessDenied
           \<longleftrightarrow> \<not> (role u = ''admin'' \<or> (role u = ''user'' \<and> createdBy t = uid u)
                  \<or> (role u = ''agent'' \<and> assignedTo t = Some (uid u)))))
   \<and> (getTicket u i d = Inl AccessDenied \<longrightarrow> (\<exists>t. Ticket_findById d i = Some t))"
proof -
  have allowed: "(role u = ''admin'' \<or> (role u = ''user'' \<and> createdBy t = uid u)
               \<or> (role u = ''agent'' \<and> assignedTo t = Some (uid u))) = (\<not> denied u t)"
    if "role u \<in> {''user'', ''agent'', ''admin''}" for t
    using that by (auto simp: denied_def)
  show ?thesis
    by (auto simp: getTicket_denied allowed split: option.splits)
qed

text \<open>
  Scenario A: the creator reads the ticket, another user is refused, and an id that
  resolves to no ticket is not found.
\<close>

theorem getTicket_access_witness:
  "Ticket_findById [ticket_T] (ObjectId 9) = None
   \<and> getTicket bob (ObjectId 9) [ticket_T] = Inl NotFound
   \<and> role alice \<in> {''user'', ''agent'', ''admin''}
   \<and> Ticket_findById [ticket_T] (ObjectId 1) = Some ticket_T
   \<and> createdBy ticket_T = uid alice
   \<and> getTicket alice (ObjectId 1) [ticket_T] = Inr ticket_T
   \<and> role bob \<in> {''user'', ''agent'', ''admin''}
   \<and> createdBy ticket_T \<noteq> uid bob
   \<and> getTicket bob (ObjectId 1) [ticket_T] = Inl AccessDenied"
proof -
  have facts: "Ticket_findById [ticket_T] (ObjectId 9) = None"
    "Ticket_findById [ticket_T] (ObjectId 1) = Some ticket_T"
    "role alice = ''user''" "role bob = ''user''"
    "createdBy ticket_T = uid alice" "createdBy ticket_T \<noteq> uid bob"
    by (simp_all add: Ticket_findById_def ticket_T_def alice_def bob_def)
  show ?thesis
    using facts
      getTicket_access [where u = bob and i = "ObjectId 9" and d = "[ticket_T]"]
      getTicket_access [where u = alice and i = "ObjectId 1" and d = "[ticket_T]" and t = ticket_T]
      getTicket_access [where u = bob and i = "ObjectId 1" and d = "[ticket_T]" and t = ticket_T]
    by simp
qed

subsection \<open>Roles the checks do not name\<close>

lemma Ticket_find_Nil: "Ticket_find [] d = d"
  by (simp add: Ticket_find_def matches_def)

lemma mset_sort_createdAt_desc: "mset (sort_createdAt_desc ts) = mset ts"
  by (simp add: sort_createdAt_desc_def)

lemma updateTicket_AccessDenied:
  assumes "fst (updateTicket now1 now2 stamp u i b d) = Inl AccessDenied"
  shows "\<exists>t. Ticket_findById d i = Some t \<and> denied u t"
proof (cases "Ticket_findById d i")
  case None
  with assms show ?thesis by (simp add: updateTicket_missing)
next
  case (Some t)
  show ?thesis
  proof (cases "denied u t")
    case True
    with Some show ?thesis by simp
  next
    case False
    from assms have False
      unfolding updateTicket_found [OF Some False] Let_def
      by (auto split: sum.splits option.splits prod.splits)
    then show ?thesis ..
  qed
qed

lemma addComment_AccessDenied:
  assumes "fst (addComment stamp u i b d) = Inl AccessDenied"
  shows "\<exists>t. Ticket_findById d i = Some t \<and> denied u t"
  using assms
  by (auto simp: addComment_def denied_def Let_def split: option.splits if_splits sum.splits)

lemma addComment_other_role:
  assumes "role u \<noteq> ''user''" "role u \<noteq> ''agent''"
  shows "addComment stamp u i b d = addComment stamp (u \<lparr> role := ''admin'' \<rparr>) i b d"
  using assms by (auto simp: addComment_def split: option.splits)

lemma updateTicket_other_role:
  assumes "role u \<noteq> ''user''" "role u \<noteq> ''agent''"
  shows "updateTicket now1 now2 stamp u i b d
           = updateTicket now1 now2 stamp (u \<lparr> role := ''admin'' \<rparr>) i b d"
proof (cases "Ticket_findById d i")
  case None
  then show ?thesis by (simp add: updateTicket_missing)
next
  case (Some t)
  have n: "\<not> denied u t" and a: "\<not> denied (u \<lparr> role := ''admin'' \<rparr>) t"
    using assms by (simp_all add: denied_def)
  show ?thesis
    unfolding updateTicket_found [OF Some n] updateTicket_found [OF Some a] ..
qed

text \<open>
  C9. For every principal whose role is none of \<^verbatim>\<open>user\<close>, \<^verbatim>\<open>agent\<close> and
  \<^verbatim>\<open>admin\<close>, the list operation applies no scope filter and returns every ticket
  of the store (newest first); get answers with the ticket whenever the id resolves to
  one; and get, update and comment do what they do for an administrator with the same
  id, never answering access-denied.
\<close>

theorem other_roles_unrestricted:
  assumes "role u \<notin> {''user'', ''agent'', ''admin''}"
  shows "getTickets u d = sort_createdAt_desc d
       \<and> mset (getTickets u d) = mset d
       \<and> getTicket u i d
           = (case Ticket_findById d i of None \<Rightarrow> Inl NotFound | Some t \<Rightarrow> Inr t)
       \<and> getTicket u i d = getTicket (u \<lparr> role := ''admin'' \<rparr>) i d
       \<and> updateTicket nowA nowB stamp u i b d
           = updateTicket nowA nowB stamp (u \<lparr> role := ''admin'' \<rparr>) i b d
       \<and> fst (updateTicket nowA nowB stamp u i b d) \<noteq> Inl AccessDenied
       \<and> addComment stamp u i b d = addComment stamp (u \<lparr> role := ''admin'' \<rparr>) i b d
       \<and> fst (addComment stamp u i b d) \<noteq> Inl AccessDenied"
proof -
  from assms have r: "role u \<noteq> ''user''" "role u \<noteq> ''agent''"
    by simp_all
  have free: "\<not> denied u t" "\<not> denied (u \<lparr> role := ''admin'' \<rparr>) t" for t
    using r by (simp_all add: denied_def)
  have list: "getTickets u d = sort_createdAt_desc d"
    using r by (simp add: getTickets_def Ticket_find_Nil)
  have get: "getTicket u i d
           = (case Ticket_findById d i of None \<Rightarrow> Inl NotFound | Some t \<Rightarrow> Inr t)"
    "getTicket u i d = getTicket (u \<lparr> role := ''admin'' \<rparr>) i d"
    by (simp_all add: getTicket_denied free split: option.splits)
  have upd: "fst (updateTicket nowA nowB stamp u i b d) \<noteq> Inl AccessDenied"
    using updateTicket_AccessDenied [of nowA nowB stamp u i b d] free by blast
  have com: "fst (addComment stamp u i b d) \<noteq> Inl AccessDenied"
    using addComment_AccessDenied [of stamp u i b d] free by blast
  show ?thesis
    using list get upd com updateTicket_other_role [OF r] addComment_other_role [OF r]
    by (simp add: mset_sort_createdAt_desc)
qed

text \<open>
  A principal with the role \<^verbatim>\<open>manager\<close>, who neither created the ticket nor is
  assigned to it, lists, reads, closes and comments on it.
\<close>

theorem other_roles_unrestricted_witness:
  "role manager \<notin> {''user'', ''agent'', ''admin''}
   \<and> createdBy ticket_T \<noteq> uid manager \<and> assignedTo ticket_T \<noteq> Some (uid manager)
   \<and> getTickets manager
        [ticket_T, ticket_T \<lparr> ticket_id := ObjectId 2, createdBy := ObjectId 11, createdAt := 10 \<rparr>]
     = [ticket_T \<lparr> ticket_id := ObjectId 2, createdBy := ObjectId 11, createdAt := 10 \<rparr>, ticket_T]
   \<and> getTicket manager (ObjectId 1) [ticket_T] = Inr ticket_T
   \<and> updateTicket 5 5 5 manager (ObjectId 1) (empty_body \<lparr> body_status := Some ''closed'' \<rparr>)
        [ticket_T]
     = (Inr (ticket_T \<lparr> status := ''closed'', updatedAt := 5 \<rparr>),
        [ticket_T \<lparr> status := ''closed'', updatedAt := 5 \<rparr>])
   \<and> fst (addComment 5 manager (ObjectId 1) (empty_body \<lparr> body_text := Some ''seen'' \<rparr>)
          [ticket_T])
     = Inr (Some (ticket_T \<lparr> comments :=
                    [\<lparr> user = ObjectId 40, comment_text = ''seen'', isInternal = False,
                       comment_createdAt = 5, comment_updatedAt = 5 \<rparr>],
                  updatedAt := 5 \<rparr>))"
proof -
  have r: "role manager \<notin> {''user'', ''agent'', ''admin''}"
    by (simp add: manager_def)
  have other: "createdBy ticket_T \<noteq> uid manager \<and> assignedTo ticket_T \<noteq> Some (uid manager)"
    by (simp add: manager_def ticket_T_def)
  have list: "sort_createdAt_desc
        [ticket_T, ticket_T \<lparr> ticket_id := ObjectId 2, createdBy := ObjectId 11, createdAt := 10 \<rparr>]
     = [ticket_T \<lparr> ticket_id := ObjectId 2, createdBy := ObjectId 11, createdAt := 10 \<rparr>, ticket_T]"
    by code_simp
  have found: "Ticket_findById [ticket_T] (ObjectId 1) = Some ticket_T"
    by code_simp
  have upd: "updateTicket 5 5 5 (manager \<lparr> role := ''admin'' \<rparr>) (ObjectId 1)
        (empty_body \<lparr> body_status := Some ''closed'' \<rparr>) [ticket_T]
     = (Inr (ticket_T \<lparr> status := ''closed'', updatedAt := 5 \<rparr>),
        [ticket_T \<lparr> status := ''closed'', updatedAt := 5 \<rparr>])"
    by code_simp
  have com: "fst (addComment 5 (manager \<lparr> role := ''admin'' \<rparr>) (ObjectId 1)
          (empty_body \<lparr> body_text := Some ''seen'' \<rparr>) [ticket_T])
     = Inr (Some (ticket_T \<lparr> comments :=
                    [\<lparr> user = ObjectId 40, comment_text = ''seen'', isInternal = False,
                       comment_createdAt = 5, comment_updatedAt = 5 \<rparr>],
                  updatedAt := 5 \<rparr>))"
    by code_simp
  show ?thesis
    using r other list found upd com
      other_roles_unrestricted [OF r, where i = "ObjectId 1" and d = "[ticket_T]"
        and nowA = 5 and nowB = 5 and stamp = 5
        and b = "empty_body \<lparr> body_status := Some ''closed'' \<rparr>"]
      other_roles_unrestricted [OF r, where i = "ObjectId 1" and d = "[ticket_T]"
        and nowA = 5 and nowB = 5 and stamp = 5
        and b = "empty_body \<lparr> body_text := Some ''seen'' \<rparr>"]
      other_roles_unrestricted [OF r, where i = "ObjectId 1" and nowA = 5 and nowB = 5 and stamp = 5
        and b = empty_body
        and d = "[ticket_T, ticket_T \<lparr> ticket_id := ObjectId 2, createdBy := ObjectId 11,
                                        createdAt := 10 \<rparr>]"]
    by simp
qed

subsection \<open>The scope of the dashboard\<close>

lemma getDashboardStats_other:
  assumes "role u \<noteq> ''agent''"
  shows "getDashboardStats z nowWeek nowSla u d
           = getDashboardStats z nowWeek nowSla (u \<lparr> role := ''admin'' \<rparr>) d"
  unfolding getDashboardStats_def by (simp add: assms)







subsection \<open>The report of an agent\<close>

lemma countDocuments_agent:
  "Ticket_countDocuments [assignedTo_is i] d = length (filter (\<lambda>t. assignedTo t = Some i) d)"
  "Ticket_countDocuments [assignedTo_is i, status_is s] d
     = length (filter (\<lambda>t. assignedTo t = Some i \<and> status t = s) d)"
proof -
  have "matches [assignedTo_is i] = (\<lambda>t. assignedTo t = Some i)"
    "matches [assignedTo_is i, status_is s] = (\<lambda>t. assignedTo t = Some i \<and> status t = s)"
    by (auto simp: matches_def)
  then show
    "Ticket_countDocuments [assignedTo_is i] d = length (filter (\<lambda>t. assignedTo t = Some i) d)"
    "Ticket_countDocuments [assignedTo_is i, status_is s] d
       = length (filter (\<lambda>t. assignedTo t = Some i \<and> status t = s) d)"
    by (simp_all add: Ticket_countDocuments_def)
qed

lemma aggregate_agent:
  "Ticket_aggregate_count [assignedTo_is i] path d = []"
  by (simp add: Ticket_aggregate_count_def matches_uncast_def)

lemma aggregate_unscoped:
  "Ticket_aggregate_count [] path d
     = map (\<lambda>v. (v, length (filter (\<lambda>t. path t = v) d))) (remdups (map path d))"
  by (simp add: Ticket_aggregate_count_def matches_uncast_def)

text \<open>
  For an agent the counts are those of the tickets assigned to the agent, and the three
  distributions are empty, whatever the collection holds.
\<close>

lemma getDashboardStats_agent_fields:
  assumes "role u = ''agent''"
  shows "totalTickets (getDashboardStats z nowWeek nowSla u d)
           = length (filter (\<lambda>t. assignedTo t = Some (uid u)) d)"
    and "openTickets (getDashboardStats z nowWeek nowSla u d)
           = length (filter (\<lambda>t. assignedTo t = Some (uid u) \<and> status t = ''open'') d)"
    and "pendingTickets (getDashboardStats z nowWeek nowSla u d)
           = length (filter (\<lambda>t. assignedTo t = Some (uid u) \<and> status t = ''pending'') d)"
    and "resolvedTickets (getDashboardStats z nowWeek nowSla u d)
           = length (filter (\<lambda>t. assignedTo t = Some (uid u) \<and> status t = ''resolved'') d)"
    and "closedTickets (getDashboardStats z nowWeek nowSla u d)
           = length (filter (\<lambda>t. assignedTo t = Some (uid u) \<and> status t = ''closed'') d)"
    and "priorityStats (getDashboardStats z nowWeek nowSla u d) = []"
    and "categoryStats (getDashboardStats z nowWeek nowSla u d) = []"
    and "statusStats (getDashboardStats z nowWeek nowSla u d) = []"
  unfolding getDashboardStats_def Let_def
  by (simp_all add: assms case_prod_beta countDocuments_agent aggregate_agent)

text \<open>
  A report computed over the tickets of the agent has a distribution with an entry for
  each priority among them.
\<close>

lemma priorityStats_over_assigned:
  "priorityStats (getDashboardStats z nowWeek nowSla (u \<lparr> role := ''admin'' \<rparr>) ts)
     = map (\<lambda>v. (v, length (filter (\<lambda>t. priority t = v) ts))) (remdups (map priority ts))"
  unfolding getDashboardStats_def Let_def
  by (simp add: case_prod_beta aggregate_unscoped)

text \<open>
  C1. The claim is that for an agent the stats operation succeeds and that the report is
  computed over exactly the tickets assigned to the agent. At the collection of
  Scenario E the handler's report for the agent \<open>grace\<close> has the counts of her three
  tickets and empty distributions by priority, category and status, where the report
  computed over her three tickets has one entry for the priority, one for the category
  and two for the status. Whatever the middleware of the route lets through, the answer
  to the agent is not that report.
\<close>

theorem getDashboardStats_agent_distributions:
  "getDashboardStats utc_zone 7200000 7200000 grace desk
     = \<lparr> totalTickets = 3, openTickets = 2, pendingTickets = 0, resolvedTickets = 1,
         closedTickets = 0, avgResolutionTime = 30, slaComplianceRate = 100,
         slaCompliantTickets = 1, priorityStats = [], categoryStats = [], statusStats = [],
         recentTickets = 3,
         slaStatus_counts = \<lparr> normal = 2, warning = 0, breached = 0 \<rparr> \<rparr>
   \<and> filter (\<lambda>t. assignedTo t = Some (uid grace)) desk = [ticket_T, ticket_R, ticket_O]
   \<and> getDashboardStats utc_zone 7200000 7200000 root_admin [ticket_T, ticket_R, ticket_O]
     = \<lparr> totalTickets = 3, openTickets = 2, pendingTickets = 0, resolvedTickets = 1,
         closedTickets = 0, avgResolutionTime = 30, slaComplianceRate = 100,
         slaCompliantTickets = 1, priorityStats = [(''high'', 3)],
         categoryStats = [(''bug'', 3)],
         statusStats = [(''resolved'', 1), (''open'', 2)], recentTickets = 3,
         slaStatus_counts = \<lparr> normal = 2, warning = 0, breached = 0 \<rparr> \<rparr>
   \<and> (\<forall>gate. dashboard_stats gate utc_zone 7200000 7200000 grace desk
         \<noteq> Inr (getDashboardStats utc_zone 7200000 7200000 root_admin
                   [ticket_T, ticket_R, ticket_O]))"
proof -
  have agent: "getDashboardStats utc_zone 7200000 7200000 grace desk
     = \<lparr> totalTickets = 3, openTickets = 2, pendingTickets = 0, resolvedTickets = 1,
         closedTickets = 0, avgResolutionTime = 30, slaComplianceRate = 100,
         slaCompliantTickets = 1, priorityStats = [], categoryStats = [], statusStats = [],
         recentTickets = 3,
         slaStatus_counts = \<lparr> normal = 2, warning = 0, breached = 0 \<rparr> \<rparr>"
    by code_simp
  have scope: "filter (\<lambda>t. assignedTo t = Some (uid grace)) desk = [ticket_T, ticket_R, ticket_O]"
    by code_simp
  have over: "getDashboardStats utc_zone 7200000 7200000 root_admin [ticket_T, ticket_R, ticket_O]
     = \<lparr> totalTickets = 3, openTickets = 2, pendingTickets = 0, resolvedTickets = 1,
         closedTickets = 0, avgResolutionTime = 30, slaComplianceRate = 100,
         slaCompliantTickets = 1, priorityStats = [(''high'', 3)],
         categoryStats = [(''bug'', 3)],
         statusStats = [(''resolved'', 1), (''open'', 2)], recentTickets = 3,
         slaStatus_counts = \<lparr> normal = 2, warning = 0, breached = 0 \<rparr> \<rparr>"
    by code_simp
  have "dashboard_stats gate utc_zone 7200000 7200000 grace desk
         \<noteq> Inr (getDashboardStats utc_zone 7200000 7200000 root_admin
                   [ticket_T, ticket_R, ticket_O])" for gate
    unfolding dashboard_stats_def agent over by simp
  with agent scope over show ?thesis by blast
qed

end
